theory Spec2Isabelle
  imports Complex_Main "HOL-Library.Monad_Syntax"
begin

section \<open>Values that cross the HTTP boundary\<close>

text \<open>
  A request body is what \<open>express.json()\<close> hands to a handler: a JSON value, or nothing
  at all when the request carried no JSON (\<open>req.body\<close> is then \<open>undefined\<close>). A JSON
  number is the value of the double it is parsed to, a rational; a string is the sequence
  of the bytes of its text (UTF-8). An object is an association list in the order of the
  text; as \<open>JSON.parse\<close> does, the last binding of a key wins.
\<close>

datatype json =
    JNull
  | JBool bool
  | JNum rat
  | JStr string
  | JArr "json list"
  | JObj "(string \<times> json) list"

type_synonym time = int \<comment> \<open>milliseconds since the epoch, as \<open>Date.prototype.getTime\<close>\<close>

datatype date = InvalidDate | Date time

datatype err = TypeError | ValidationError | CastError | StoreError

text \<open>
  What the handlers take from their platform and from the driver is not code of this
  repository; the parts whose behaviour is not fixed by the handlers are parameters:
  \<^item> \<open>isValid\<close>: \<open>mongoose.Types.ObjectId.isValid\<close>;
  \<^item> \<open>castObjectId\<close>: the identifier a value is cast to when a query or a document is
    built from it (\<open>None\<close>: the cast is refused);
  \<^item> \<open>stringToNumber\<close>: \<open>Number(v)\<close> for a string, an array or an object (\<open>None\<close>: the
    result is \<open>NaN\<close> or not an integer);
  \<^item> \<open>numberToString\<close>: the text of a number (\<open>Number.prototype.toString\<close>);
  \<^item> \<open>trim\<close>: \<open>String.prototype.trim\<close>;
  \<^item> \<open>parseDate\<close>: the time value of \<open>new Date(v)\<close> for a string, an array or an object
    (\<open>None\<close>: an invalid date);
  \<^item> \<open>regex\<close>: the store's matcher for a \<open>$regex\<close> pattern under option \<open>i\<close>
    (\<open>None\<close>: the store refuses the pattern);
  \<^item> \<open>localTime\<close> and \<open>utcTime\<close>: the server's time zone, as the two conversions of the
    language: \<open>localTime t\<close> is the local time value of the instant \<open>t\<close> (the instant moved
    by the offset in force at it) and \<open>utcTime l\<close> the instant that a local time value \<open>l\<close>
    stands for.
\<close>

record env =
  isValid :: "json \<Rightarrow> bool"
  castObjectId :: "json \<Rightarrow> string option"
  stringToNumber :: "json \<Rightarrow> int option"
  numberToString :: "rat \<Rightarrow> string"
  trim :: "string \<Rightarrow> string"
  parseDate :: "json \<Rightarrow> time option"
  regex :: "string \<Rightarrow> (string \<Rightarrow> bool) option"
  localTime :: "time \<Rightarrow> time"
  utcTime :: "time \<Rightarrow> time"

subsection \<open>JavaScript coercions used by the handlers\<close>

fun truthy :: "json \<Rightarrow> bool" where
  "truthy JNull = False"
| "truthy (JBool b) = b"
| "truthy (JNum n) = (n \<noteq> 0)"
| "truthy (JStr s) = (s \<noteq> [])"
| "truthy (JArr xs) = True"
| "truthy (JObj kvs) = True"

text \<open>\<open>Number(v)\<close>; \<open>None\<close> stands for \<open>NaN\<close> (and for a value that is not an integer).\<close>

fun toNumber :: "env \<Rightarrow> json \<Rightarrow> int option" where
  "toNumber e JNull = Some 0"
| "toNumber e (JBool b) = Some (if b then 1 else 0)"
| "toNumber e (JNum n) = (if of_int \<lfloor>n\<rfloor> = n then Some \<lfloor>n\<rfloor> else None)"
| "toNumber e v = stringToNumber e v"

text \<open>\<open>new Date(v)\<close>: a number in the range of \<open>Date\<close> is a time value, its fraction cut
  off.\<close>

fun newDate :: "env \<Rightarrow> json \<Rightarrow> date" where
  "newDate e JNull = Date 0"
| "newDate e (JBool b) = Date (if b then 1 else 0)"
| "newDate e (JNum n) =
     (if \<bar>n\<bar> \<le> 8640000000000000 then Date (if 0 \<le> n then \<lfloor>n\<rfloor> else \<lceil>n\<rceil>)
      else InvalidDate)"
| "newDate e v = (case parseDate e v of None \<Rightarrow> InvalidDate | Some t \<Rightarrow> Date t)"

text \<open>Property access on a body: only an object has the properties the handlers read.\<close>

definition lookup :: "(string \<times> json) list \<Rightarrow> string \<Rightarrow> json option" where
  "lookup kvs k = map_of (rev kvs) k"

fun getProp :: "json option \<Rightarrow> string \<Rightarrow> json option" where
  "getProp (Some (JObj kvs)) k = lookup kvs k"
| "getProp b k = None"


section \<open>The data model (api/models)\<close>

text \<open>
  Both schemas carry \<open>timestamps: true\<close>, so every document has \<open>_id\<close>, \<open>createdAt\<close>
  and \<open>updatedAt\<close>. A path that may hold \<open>null\<close> is an option; \<open>title\<close> is required and
  \<open>priority\<close> always comes out of \<open>Number(...)\<close>, so neither is ever \<open>null\<close>. A \<open>tags\<close> array
  that was set to \<open>null\<close> is kept as the empty list.
\<close>

record entity =
  oid :: string
  createdAt :: time
  updatedAt :: time

record task = entity +
  title :: string
  "notes" :: "string option"
  status :: "string option"
  priority :: int
  dueDate :: "time option"
  tags :: "string option list"
  completedAt :: "time option"

record focus = entity +
  taskId :: "string option"
  startedAt :: time
  endedAt :: time
  durationMin :: int

subsection \<open>Casting and validation of the schemas' paths\<close>

text \<open>
  A \<open>String\<close> path keeps \<open>null\<close> and a string, turns a number or a boolean into its
  text, takes from an object its \<open>_id\<close> when that is a non-empty string, and refuses every
  other object and every array. \<open>None\<close> is a refused value.
\<close>

fun castString :: "env \<Rightarrow> json \<Rightarrow> string option option" where
  "castString e JNull = Some None"
| "castString e (JStr s) = Some (Some s)"
| "castString e (JNum n) = Some (Some (numberToString e n))"
| "castString e (JBool b) = Some (Some (if b then ''true'' else ''false''))"
| "castString e (JObj kvs) =
     (case lookup kvs ''_id'' of
        Some (JStr s) \<Rightarrow> if s = [] then None else Some (Some s)
      | _ \<Rightarrow> None)"
| "castString e (JArr xs) = None"

fun castStrings :: "env \<Rightarrow> json list \<Rightarrow> string option list option" where
  "castStrings e [] = Some []"
| "castStrings e (v # vs) =
     (case castString e v of
        None \<Rightarrow> None
      | Some s \<Rightarrow> (case castStrings e vs of None \<Rightarrow> None | Some ss \<Rightarrow> Some (s # ss)))"

text \<open>\<open>title: { type: String, required: true }\<close>\<close>

definition valid_title :: "env \<Rightarrow> json \<Rightarrow> string option" where
  "valid_title e v =
     (case castString e v of
        Some (Some s) \<Rightarrow> if s = [] then None else Some s
      | _ \<Rightarrow> None)"

text \<open>\<open>status: { type: String, enum: ["todo", "doing", "done"], default: "todo" }\<close>;
  the enum validator lets \<open>null\<close> through.\<close>

definition valid_status :: "env \<Rightarrow> json \<Rightarrow> string option option" where
  "valid_status e v =
     (case castString e v of
        None \<Rightarrow> None
      | Some None \<Rightarrow> Some None
      | Some (Some s) \<Rightarrow> if s \<in> {''todo'', ''doing'', ''done''} then Some (Some s) else None)"

text \<open>\<open>priority: { type: Number, enum: [1, 2, 3], default: 2 }\<close>, on the result of
  \<open>Number(...)\<close>: \<open>NaN\<close> is refused by the cast, another number by the enum.\<close>

definition valid_priority :: "int option \<Rightarrow> int option" where
  "valid_priority n =
     (case n of None \<Rightarrow> None | Some k \<Rightarrow> if k \<in> {1, 2, 3} then Some k else None)"

text \<open>\<open>dueDate: { type: Date, default: null }\<close>, on \<open>null\<close> or a \<open>Date\<close> object.\<close>

definition valid_date :: "date option \<Rightarrow> time option option" where
  "valid_date d =
     (case d of None \<Rightarrow> Some None | Some InvalidDate \<Rightarrow> None | Some (Date t) \<Rightarrow> Some (Some t))"

text \<open>\<open>tags: { type: [String], default: [] }\<close>: an array is cast element by element, a
  value that is not an array is cast as the array of that one value.\<close>

definition valid_tags :: "env \<Rightarrow> json \<Rightarrow> string option list option" where
  "valid_tags e v =
     (case v of JArr xs \<Rightarrow> castStrings e xs | JNull \<Rightarrow> Some [] | _ \<Rightarrow> castStrings e [v])"

section \<open>The document store\<close>

text \<open>
  The store holds the two collections. Every operation the handlers await is one round
  trip; \<open>calls\<close> counts the round trips issued so far and \<open>down n\<close> says whether the
  \<open>n\<close>-th of them fails (the promise is rejected).
\<close>

record store =
  tasks :: "task list"
  sessions :: "focus list"
  calls :: nat
  down :: "nat \<Rightarrow> bool"

definition roundtrip :: "store \<Rightarrow> bool \<times> store" where
  "roundtrip st = (down st (calls st), st\<lparr>calls := Suc (calls st)\<rparr>)"

text \<open>What a handler leaves behind: a response (status and JSON payload), or a rejected
  promise that nothing in the handler caught.\<close>

datatype message = Text string | MessageOf err

datatype payload =
    Error message
  | TaskDoc task
  | TaskDocs "task list"
  | OkTrue
  | Stats nat nat int
  | SessionDoc focus

datatype reply = Reply nat payload | Escaped err

text \<open>One awaited operation: the round trip fails, or the operation runs on the store.\<close>

definition perform :: "store \<Rightarrow> (store \<Rightarrow> 'a \<times> store) \<Rightarrow> (err + 'a) \<times> store" where
  "perform st f =
     (case roundtrip st of
        (failed, st') \<Rightarrow>
          if failed then (Inl StoreError, st')
          else (case f st' of (r, st'') \<Rightarrow> (Inr r, st'')))"

text \<open>A write addressed by \<open>_id\<close> touches the first document that has it.\<close>

fun update_first :: "('a \<Rightarrow> bool) \<Rightarrow> ('a \<Rightarrow> 'a) \<Rightarrow> 'a list \<Rightarrow> 'a list" where
  "update_first p f [] = []"
| "update_first p f (x # xs) = (if p x then f x # xs else x # update_first p f xs)"

fun remove_first :: "('a \<Rightarrow> bool) \<Rightarrow> 'a list \<Rightarrow> 'a list" where
  "remove_first p [] = []"
| "remove_first p (x # xs) = (if p x then xs else x # remove_first p xs)"

text \<open>The \<open>catch\<close> blocks of the task and focus handlers: status 400 and the error's
  message.\<close>

definition caught :: "err \<Rightarrow> store \<Rightarrow> reply \<times> store" where
  "caught x st = (Reply 400 (Error (MessageOf x)), st)"

section \<open>Focus sessions (server.js, Focus Mode endpoints)\<close>

definition FocusSession_create :: "focus \<Rightarrow> store \<Rightarrow> (err + focus) \<times> store" where
  "FocusSession_create d st = perform st (\<lambda>s. (d, s\<lparr>sessions := sessions s @ [d]\<rparr>))"

definition FocusSession_findById :: "env \<Rightarrow> json \<Rightarrow> store \<Rightarrow> (err + focus option) \<times> store" where
  "FocusSession_findById e v st =
     (case castObjectId e v of
        None \<Rightarrow> (Inl CastError, st)
      | Some i \<Rightarrow> perform st (\<lambda>s. (find (\<lambda>d. oid d = i) (sessions s), s)))"

definition session_save :: "focus \<Rightarrow> store \<Rightarrow> (err + focus) \<times> store" where
  "session_save d st =
     perform st (\<lambda>s. (d, s\<lparr>sessions := update_first (\<lambda>x. oid x = oid d) (\<lambda>x. d) (sessions s)\<rparr>))"

text \<open>
  \<open>POST /focus/start\<close>. \<open>now\<close> is the handler's \<open>new Date()\<close>, \<open>stamp\<close> the time at
  which the driver sets the timestamps and \<open>new_id\<close> the identifier it generates.
\<close>

definition focus_start ::
  "env \<Rightarrow> time \<Rightarrow> time \<Rightarrow> string \<Rightarrow> json option \<Rightarrow> store \<Rightarrow> reply \<times> store" where
  "focus_start e now stamp new_id body st =
     (let ref = (case getProp body ''taskId'' of
                   None \<Rightarrow> Some None
                 | Some v \<Rightarrow> if truthy v \<and> isValid e v
                            then map_option Some (castObjectId e v) else Some None)
      in case ref of
           None \<Rightarrow> caught ValidationError st
         | Some r \<Rightarrow>
             (case FocusSession_create
                     \<lparr>oid = new_id, createdAt = stamp, updatedAt = stamp, taskId = r,
                      startedAt = now, endedAt = now, durationMin = 0\<rparr> st of
                (Inl x, st') \<Rightarrow> caught x st'
              | (Inr doc, st') \<Rightarrow> (Reply 201 (SessionDoc doc), st')))"

text \<open>
  \<open>Math.max(0, Math.round(ms / 60000))\<close>. \<open>Math.round\<close> rounds a half up, as \<^const>\<open>round\<close>
  does; the division is taken in the rationals.
\<close>

definition minutes_of :: "int \<Rightarrow> int" where
  "minutes_of ms = max 0 (round (rat_of_int ms / 60000))"

text \<open>\<open>POST /focus/stop\<close>\<close>

definition focus_stop :: "env \<Rightarrow> time \<Rightarrow> time \<Rightarrow> json option \<Rightarrow> store \<Rightarrow> reply \<times> store" where
  "focus_stop e now stamp body st =
     (case getProp body ''sessionId'' of
        None \<Rightarrow> (Reply 400 (Error (Text ''sessionId required'')), st)
      | Some sessionId \<Rightarrow>
          if \<not> truthy sessionId \<or> \<not> isValid e sessionId
          then (Reply 400 (Error (Text ''sessionId required'')), st)
          else
            (case FocusSession_findById e sessionId st of
               (Inl x, st1) \<Rightarrow> caught x st1
             | (Inr None, st1) \<Rightarrow> (Reply 404 (Error (Text ''session not found'')), st1)
             | (Inr (Some session), st1) \<Rightarrow>
                 (let ms = now - startedAt session;
                      minutes = minutes_of ms
                  in case session_save
                            (session\<lparr>endedAt := now, durationMin := minutes, updatedAt := stamp\<rparr>)
                            st1 of
                       (Inl x, st2) \<Rightarrow> caught x st2
                     | (Inr saved, st2) \<Rightarrow> (Reply 200 (SessionDoc saved), st2))))"

section \<open>Statistics (server.js, stats helpers and route)\<close>

text \<open>
  \<open>startOfDay\<close>: \<open>setHours(0, 0, 0, 0)\<close> takes the local time value of \<open>d\<close>, keeps its day
  and sets the time within the day to zero, and goes back to the instant that local time
  value stands for. \<open>startOfNDaysAgo\<close>: \<open>setDate(getDate() - n)\<close> takes the local time value
  of that instant, moves its calendar date back by \<open>n\<close> days, the time within the day staying,
  and goes back to the instant again. Both are exact in every time zone, daylight-saving
  changes included. The route calls \<open>new Date()\<close> afresh in each helper; the model takes one
  \<open>now\<close> for the whole request.
\<close>

definition startOfDay :: "env \<Rightarrow> time \<Rightarrow> time" where
  "startOfDay e d = utcTime e ((localTime e d div 86400000) * 86400000)"

definition startOfNDaysAgo :: "env \<Rightarrow> time \<Rightarrow> nat \<Rightarrow> time" where
  "startOfNDaysAgo e now n =
     (let d = startOfDay e now
      in utcTime e (localTime e d - int n * 86400000))"

text \<open>
  The day key of an instant. Both \<open>$dateToString\<close> with format \<open>%Y-%m-%d\<close> (no time zone
  given) and \<open>toISOString().slice(0, 10)\<close> write the UTC calendar date of the instant; the
  text of a date and the number of its day determine each other, and the model keeps the
  number of the day.
\<close>

definition utcDay :: "time \<Rightarrow> int" where
  "utcDay t = t div 86400000"

definition since_done :: "time \<Rightarrow> task \<Rightarrow> bool" where
  "since_done t x =
     (status x = Some ''done'' \<and> (case completedAt x of None \<Rightarrow> False | Some c \<Rightarrow> t \<le> c))"

text \<open>The three queries of the route.\<close>

definition Task_countDocuments :: "time \<Rightarrow> store \<Rightarrow> (err + nat) \<times> store" where
  "Task_countDocuments todayStart st =
     perform st (\<lambda>s. (length (filter (since_done todayStart) (tasks s)), s))"

definition Task_aggregate :: "time \<Rightarrow> store \<Rightarrow> (err + int list) \<times> store" where
  "Task_aggregate since st =
     perform st (\<lambda>s.
       (remdups (List.map_filter
                   (\<lambda>x. if since_done since x then map_option utcDay (completedAt x) else None)
                   (tasks s)), s))"

definition FocusSession_aggregate :: "time \<Rightarrow> store \<Rightarrow> (err + int list) \<times> store" where
  "FocusSession_aggregate weekStart st =
     perform st (\<lambda>s.
       (let matched = filter (\<lambda>d. weekStart \<le> startedAt d) (sessions s)
        in if matched = [] then [] else [sum_list (map durationMin matched)], s))"

text \<open>The loop \<open>for (let i = 0; i < 60; i++)\<close> with its \<open>break\<close>.\<close>

function streak_loop :: "env \<Rightarrow> time \<Rightarrow> int list \<Rightarrow> nat \<Rightarrow> nat \<Rightarrow> nat" where
  "streak_loop e now daysWith i streak =
     (if i < 60
      then if utcDay (startOfNDaysAgo e now i) \<in> set daysWith
           then streak_loop e now daysWith (i + 1) (streak + 1)
           else streak
      else streak)"
  by pat_completeness auto
termination
  by (relation "measure (\<lambda>(e, now, daysWith, i, streak). 60 - i)") auto

declare streak_loop.simps [simp del]

text \<open>\<open>GET /stats/overview\<close>\<close>

definition stats_failed :: "store \<Rightarrow> reply \<times> store" where
  "stats_failed st = (Reply 500 (Error (Text ''stats failed'')), st)"

definition stats_overview :: "env \<Rightarrow> time \<Rightarrow> store \<Rightarrow> reply \<times> store" where
  "stats_overview e now st =
     (let todayStart = startOfDay e now
      in case Task_countDocuments todayStart st of
           (Inl x, st1) \<Rightarrow> stats_failed st1
         | (Inr todayCompleted, st1) \<Rightarrow>
             (let since = startOfNDaysAgo e now 60
              in case Task_aggregate since st1 of
                   (Inl x, st2) \<Rightarrow> stats_failed st2
                 | (Inr daysWith, st2) \<Rightarrow>
                     (let streak = streak_loop e now daysWith 0 0;
                          weekStart = startOfNDaysAgo e now 6
                      in case FocusSession_aggregate weekStart st2 of
                           (Inl x, st3) \<Rightarrow> stats_failed st3
                         | (Inr weeklyAgg, st3) \<Rightarrow>
                             (let weeklyFocusMinutes =
                                    (case weeklyAgg of [] \<Rightarrow> 0 | g # _ \<Rightarrow> g)
                              in (Reply 200 (Stats todayCompleted streak weeklyFocusMinutes),
                                  st3)))))"

section \<open>Tasks (server.js, task routes)\<close>

subsection \<open>Listing\<close>

text \<open>
  A query parameter is a string, or absent (the arrays and objects into which repeated
  and bracketed parameters are parsed are not modelled). The \<open>where\<close> object of
  \<open>GET /tasks\<close> has a key for each path it constrains; a key that is not set is \<open>None\<close>.
\<close>

record conditions =
  w_status :: "string option"
  w_priority :: "int option"
  w_tags :: "string option"
  w_title :: "string option"

type_synonym query = "string \<rightharpoonup> string"

text \<open>\<open>toLowerCase\<close> on the bytes of a text: the letters \<open>A\<close> to \<open>Z\<close> are lowered. The
  handler uses it only to compare \<open>dir\<close> with \<open>asc\<close>, and lowering a character beyond ASCII
  never gives one of the letters \<open>a\<close>, \<open>s\<close>, \<open>c\<close>.\<close>

definition toLowerCase :: "string \<Rightarrow> string" where
  "toLowerCase s =
     map (\<lambda>c. let n = (of_char c :: nat) in if 65 \<le> n \<and> n \<le> 90 then char_of (n + 32) else c) s"

definition build_where :: "env \<Rightarrow> query \<Rightarrow> conditions" where
  "build_where e q =
     \<lparr>w_status =
        (case q ''status'' of
           None \<Rightarrow> None
         | Some s \<Rightarrow> if s \<noteq> [] \<and> s \<in> {''todo'', ''doing'', ''done''} then Some s else None),
      w_priority =
        (case q ''priority'' of
           None \<Rightarrow> None
         | Some p \<Rightarrow>
             if p \<noteq> [] \<and> toNumber e (JStr p) \<in> {Some 1, Some 2, Some 3}
             then toNumber e (JStr p) else None),
      w_tags =
        (case q ''tag'' of
           None \<Rightarrow> None
         | Some t \<Rightarrow> if t \<noteq> [] \<and> trim e t \<noteq> [] then Some (trim e t) else None),
      w_title =
        (case q ''q'' of
           None \<Rightarrow> None
         | Some x \<Rightarrow> if x \<noteq> [] \<and> trim e x \<noteq> [] then Some (trim e x) else None)\<rparr>"

text \<open>
  \<open>sortMap[sort] ?? "createdAt"\<close>. For one of the four keys of \<open>sortMap\<close> the value is that
  path; for a name that every object inherits the value is not nullish (a function, or
  the prototype), and the key of the sort is its text, which is no path of the schema
  (\<open>None\<close>); for every other name the value is \<open>undefined\<close> and the path is \<open>createdAt\<close>.
\<close>

definition inherited :: "string list" where
  "inherited =
     [''constructor'', ''toString'', ''toLocaleString'', ''valueOf'', ''hasOwnProperty'',
      ''isPrototypeOf'', ''propertyIsEnumerable'', ''__proto__'', ''__defineGetter__'',
      ''__defineSetter__'', ''__lookupGetter__'', ''__lookupSetter__'']"

definition sortField :: "query \<Rightarrow> string option" where
  "sortField q =
     (case q ''sort'' of
        None \<Rightarrow> Some ''createdAt''
      | Some s \<Rightarrow>
          if s \<in> {''createdAt'', ''priority'', ''dueDate'', ''title''} then Some s
          else if s \<in> set inherited then None
          else Some ''createdAt'')"

definition sortAsc :: "query \<Rightarrow> bool" where
  "sortAsc q = (case q ''dir'' of None \<Rightarrow> False | Some d \<Rightarrow> toLowerCase d = ''asc'')"

text \<open>The store's order: strings by their bytes, \<open>null\<close> before every date; on a key
  that is no path all documents tie.\<close>

fun str_less :: "string \<Rightarrow> string \<Rightarrow> bool" where
  "str_less [] [] = False"
| "str_less [] (y # ys) = True"
| "str_less (x # xs) [] = False"
| "str_less (x # xs) (y # ys) =
     ((of_char x :: nat) < of_char y \<or> (x = y \<and> str_less xs ys))"

definition key_less :: "string option \<Rightarrow> task \<Rightarrow> task \<Rightarrow> bool" where
  "key_less f a b =
     (if f = Some ''priority'' then priority a < priority b
      else if f = Some ''dueDate'' then
        (case (dueDate a, dueDate b) of
           (None, None) \<Rightarrow> False
         | (None, Some y) \<Rightarrow> True
         | (Some x, None) \<Rightarrow> False
         | (Some x, Some y) \<Rightarrow> x < y)
      else if f = Some ''title'' then str_less (title a) (title b)
      else if f = Some ''createdAt'' then createdAt a < createdAt b
      else False)"

text \<open>\<open>.sort({ [sortField]: sortDir, _id: -1 })\<close>: whether \<open>a\<close> comes before \<open>b\<close>.\<close>

definition comes_before :: "string option \<Rightarrow> bool \<Rightarrow> task \<Rightarrow> task \<Rightarrow> bool" where
  "comes_before f asc a b =
     (if key_less f a b then asc
      else if key_less f b a then \<not> asc
      else str_less (oid b) (oid a))"

fun place :: "('a \<Rightarrow> 'a \<Rightarrow> bool) \<Rightarrow> 'a \<Rightarrow> 'a list \<Rightarrow> 'a list" where
  "place lt x [] = [x]"
| "place lt x (y # ys) = (if lt y x then y # place lt x ys else x # y # ys)"

definition sorted_by :: "('a \<Rightarrow> 'a \<Rightarrow> bool) \<Rightarrow> 'a list \<Rightarrow> 'a list" where
  "sorted_by lt xs = foldr (place lt) xs []"

definition matches :: "conditions \<Rightarrow> (string \<Rightarrow> bool) \<Rightarrow> task \<Rightarrow> bool" where
  "matches w m t =
     ((case w_status w of None \<Rightarrow> True | Some s \<Rightarrow> status t = Some s) \<and>
      (case w_priority w of None \<Rightarrow> True | Some p \<Rightarrow> priority t = p) \<and>
      (case w_tags w of None \<Rightarrow> True | Some g \<Rightarrow> Some g \<in> set (tags t)) \<and>
      m (title t))"

text \<open>\<open>Task.find(where).sort(...)\<close>: a pattern the store cannot compile fails the query.\<close>

definition Task_find ::
  "env \<Rightarrow> conditions \<Rightarrow> string option \<Rightarrow> bool \<Rightarrow> store \<Rightarrow> (err + task list) \<times> store" where
  "Task_find e w f asc st =
     (case (case w_title w of None \<Rightarrow> Some (\<lambda>_. True) | Some pat \<Rightarrow> regex e pat) of
        None \<Rightarrow> (Inl StoreError, snd (roundtrip st))
      | Some m \<Rightarrow>
          perform st (\<lambda>s. (sorted_by (comes_before f asc) (filter (matches w m) (tasks s)), s)))"

text \<open>\<open>GET /tasks\<close>: the handler has no \<open>try\<close>, so a rejected query is not caught.\<close>

definition list_tasks :: "env \<Rightarrow> query \<Rightarrow> store \<Rightarrow> reply \<times> store" where
  "list_tasks e q st =
     (case Task_find e (build_where e q) (sortField q) (sortAsc q) st of
        (Inl x, st') \<Rightarrow> (Escaped x, st')
      | (Inr found, st') \<Rightarrow> (Reply 200 (TaskDocs found), st'))"

subsection \<open>Creating\<close>

text \<open>The object literal that \<open>POST /tasks\<close> hands to \<open>Task.create\<close>.\<close>

record draft =
  d_title :: string
  d_notes :: json
  d_status :: json
  d_priority :: "int option"
  d_dueDate :: "date option"
  d_tags :: "json list"

text \<open>\<open>Task.create\<close>: the document is cast and validated before anything is sent.\<close>

definition cast_document :: "env \<Rightarrow> time \<Rightarrow> string \<Rightarrow> draft \<Rightarrow> task option" where
  "cast_document e stamp new_id dr =
     do {
       t \<leftarrow> valid_title e (JStr (d_title dr));
       n \<leftarrow> castString e (d_notes dr);
       s \<leftarrow> valid_status e (d_status dr);
       p \<leftarrow> valid_priority (d_priority dr);
       d \<leftarrow> valid_date (d_dueDate dr);
       g \<leftarrow> castStrings e (d_tags dr);
       Some \<lparr>oid = new_id, createdAt = stamp, updatedAt = stamp, title = t, notes = n,
             status = s, priority = p, dueDate = d, tags = g, completedAt = None\<rparr>
     }"

definition Task_create ::
  "env \<Rightarrow> time \<Rightarrow> string \<Rightarrow> draft \<Rightarrow> store \<Rightarrow> (err + task) \<times> store" where
  "Task_create e stamp new_id dr st =
     (case cast_document e stamp new_id dr of
        None \<Rightarrow> (Inl ValidationError, st)
      | Some doc \<Rightarrow> perform st (\<lambda>s. (doc, s\<lparr>tasks := tasks s @ [doc]\<rparr>)))"

definition orElse :: "'a option \<Rightarrow> 'a \<Rightarrow> 'a" where
  "orElse x d = (case x of None \<Rightarrow> d | Some v \<Rightarrow> v)"

text \<open>The destructuring of \<open>req.body || {}\<close> with its defaults, and the literal built
  from it, for a title \<open>ttl\<close>.\<close>

definition literal :: "env \<Rightarrow> json option \<Rightarrow> string \<Rightarrow> draft" where
  "literal e body ttl =
     (let nts = orElse (getProp body ''notes'') (JStr '''');
          prio = orElse (getProp body ''priority'') (JNum 2);
          due = orElse (getProp body ''dueDate'') JNull;
          tgs = orElse (getProp body ''tags'') (JArr []);
          sts = orElse (getProp body ''status'') (JStr ''todo'')
      in \<lparr>d_title = ttl, d_notes = nts, d_status = sts, d_priority = toNumber e prio,
          d_dueDate = (if truthy due then Some (newDate e due) else None),
          d_tags = (case tgs of JArr xs \<Rightarrow> xs | _ \<Rightarrow> [])\<rparr>)"

text \<open>\<open>POST /tasks\<close>\<close>

definition create_task :: "env \<Rightarrow> time \<Rightarrow> string \<Rightarrow> json option \<Rightarrow> store \<Rightarrow> reply \<times> store" where
  "create_task e stamp new_id body st =
     (case getProp body ''title'' of
        Some (JStr ttl) \<Rightarrow>
          if ttl = [] then (Reply 400 (Error (Text ''title is required'')), st)
          else
            (case Task_create e stamp new_id (literal e body ttl) st of
               (Inl x, st') \<Rightarrow> caught x st'
             | (Inr doc, st') \<Rightarrow> (Reply 201 (TaskDoc doc), st'))
      | _ \<Rightarrow> (Reply 400 (Error (Text ''title is required'')), st))"

subsection \<open>Updating\<close>

text \<open>
  The \<open>update\<close> object of \<open>PATCH /tasks/:id\<close>, a key that is not set being \<open>None\<close>:
  \<open>priority\<close> holds the result of \<open>Number(...)\<close>, \<open>dueDate\<close> a \<open>Date\<close> or \<open>null\<close>, and
  \<open>completedAt\<close> is set by the handler only.
\<close>

record changes =
  u_title :: "json option"
  u_notes :: "json option"
  u_status :: "json option"
  u_priority :: "int option option"
  u_dueDate :: "date option option"
  u_tags :: "json option"
  u_completedAt :: "time option option"

definition allowed :: "string list" where
  "allowed = [''title'', ''notes'', ''status'', ''priority'', ''dueDate'', ''tags'']"

text \<open>\<open>k in req.body\<close> throws a \<open>TypeError\<close> unless the body is an object or an array,
  and no allowed key is a property of an array.\<close>

fun properties :: "json option \<Rightarrow> (string \<rightharpoonup> json) option" where
  "properties (Some (JObj kvs)) = Some (lookup kvs)"
| "properties (Some (JArr xs)) = Some (\<lambda>k. None)"
| "properties b = None"

text \<open>\<open>for (const k of allowed) if (k in req.body) update[k] = req.body[k]\<close>, followed
  by the two coercions.\<close>

definition build_update :: "env \<Rightarrow> (string \<rightharpoonup> json) \<Rightarrow> changes" where
  "build_update e b =
     (let u = (\<lambda>k. if k \<in> set allowed then b k else None)
      in \<lparr>u_title = u ''title'', u_notes = u ''notes'', u_status = u ''status'',
          u_priority = map_option (toNumber e) (u ''priority''),
          u_dueDate = map_option (\<lambda>v. if truthy v then Some (newDate e v) else None) (u ''dueDate''),
          u_tags = u ''tags'', u_completedAt = None\<rparr>)"

text \<open>Casting a key of the update with \<open>runValidators: true\<close>: a key that is not set
  leaves its path alone.\<close>

definition optionally :: "('a \<Rightarrow> 'b option) \<Rightarrow> 'a option \<Rightarrow> 'b option option" where
  "optionally f x = (case x of None \<Rightarrow> Some None | Some v \<Rightarrow> map_option Some (f v))"

definition cast_update :: "env \<Rightarrow> changes \<Rightarrow> (task \<Rightarrow> task) option" where
  "cast_update e u =
     do {
       t \<leftarrow> optionally (valid_title e) (u_title u);
       n \<leftarrow> optionally (castString e) (u_notes u);
       s \<leftarrow> optionally (valid_status e) (u_status u);
       p \<leftarrow> optionally valid_priority (u_priority u);
       d \<leftarrow> optionally valid_date (u_dueDate u);
       g \<leftarrow> optionally (valid_tags e) (u_tags u);
       Some (\<lambda>x. x\<lparr>title := orElse t (title x), notes := orElse n (notes x),
                    status := orElse s (status x), priority := orElse p (priority x),
                    dueDate := orElse d (dueDate x), tags := orElse g (tags x),
                    completedAt := orElse (u_completedAt u) (completedAt x)\<rparr>)
     }"

definition Task_findById :: "env \<Rightarrow> string \<Rightarrow> store \<Rightarrow> (err + task option) \<times> store" where
  "Task_findById e i st =
     (case castObjectId e (JStr i) of
        None \<Rightarrow> (Inl CastError, st)
      | Some k \<Rightarrow> perform st (\<lambda>s. (find (\<lambda>t. oid t = k) (tasks s), s)))"

text \<open>\<open>Task.findByIdAndUpdate(id, update, { new: true, runValidators: true })\<close>; the
  schema's timestamps set \<open>updatedAt\<close>.\<close>

definition Task_findByIdAndUpdate ::
  "env \<Rightarrow> time \<Rightarrow> string \<Rightarrow> changes \<Rightarrow> store \<Rightarrow> (err + task option) \<times> store" where
  "Task_findByIdAndUpdate e stamp i u st =
     (case castObjectId e (JStr i) of
        None \<Rightarrow> (Inl CastError, st)
      | Some k \<Rightarrow>
          (case cast_update e u of
             None \<Rightarrow> (Inl ValidationError, st)
           | Some f \<Rightarrow>
               perform st (\<lambda>s.
                 (map_option (\<lambda>t. (f t)\<lparr>updatedAt := stamp\<rparr>) (find (\<lambda>t. oid t = k) (tasks s)),
                  s\<lparr>tasks := update_first (\<lambda>t. oid t = k) (\<lambda>t. (f t)\<lparr>updatedAt := stamp\<rparr>)
                               (tasks s)\<rparr>))))"

text \<open>The status-transition block: \<open>nextStatus\<close> is the raw value of the body.\<close>

definition transition :: "time \<Rightarrow> string option \<Rightarrow> json \<Rightarrow> changes \<Rightarrow> changes" where
  "transition now current nextStatus u =
     (if current \<noteq> Some ''done'' \<and> nextStatus = JStr ''done''
      then u\<lparr>u_completedAt := Some (Some now)\<rparr>
      else if current = Some ''done'' \<and> nextStatus \<noteq> JStr ''done''
      then u\<lparr>u_completedAt := Some None\<rparr>
      else u)"

definition not_found :: "store \<Rightarrow> reply \<times> store" where
  "not_found st = (Reply 404 (Error (Text ''not found'')), st)"

definition finish_update ::
  "env \<Rightarrow> time \<Rightarrow> string \<Rightarrow> changes \<Rightarrow> store \<Rightarrow> reply \<times> store" where
  "finish_update e stamp i u st =
     (case Task_findByIdAndUpdate e stamp i u st of
        (Inl x, st') \<Rightarrow> caught x st'
      | (Inr None, st') \<Rightarrow> not_found st'
      | (Inr (Some updated), st') \<Rightarrow> (Reply 200 (TaskDoc updated), st'))"

text \<open>\<open>PATCH /tasks/:id\<close>\<close>

definition update_task ::
  "env \<Rightarrow> time \<Rightarrow> time \<Rightarrow> string \<Rightarrow> json option \<Rightarrow> store \<Rightarrow> reply \<times> store" where
  "update_task e now stamp i body st =
     (if \<not> isValid e (JStr i) then (Reply 400 (Error (Text ''invalid id'')), st)
      else
        (case properties body of
           None \<Rightarrow> caught TypeError st
         | Some b \<Rightarrow>
             (let u = build_update e b
              in case u_status u of
                   None \<Rightarrow> finish_update e stamp i u st
                 | Some nextStatus \<Rightarrow>
                     (case Task_findById e i st of
                        (Inl x, st1) \<Rightarrow> caught x st1
                      | (Inr None, st1) \<Rightarrow> not_found st1
                      | (Inr (Some current), st1) \<Rightarrow>
                          finish_update e stamp i
                            (transition now (status current) nextStatus u) st1))))"

subsection \<open>Deleting\<close>

definition Task_findByIdAndDelete ::
  "env \<Rightarrow> string \<Rightarrow> store \<Rightarrow> (err + task option) \<times> store" where
  "Task_findByIdAndDelete e i st =
     (case castObjectId e (JStr i) of
        None \<Rightarrow> (Inl CastError, st)
      | Some k \<Rightarrow>
          perform st (\<lambda>s.
            (find (\<lambda>t. oid t = k) (tasks s),
             s\<lparr>tasks := remove_first (\<lambda>t. oid t = k) (tasks s)\<rparr>)))"

text \<open>\<open>DELETE /tasks/:id\<close>\<close>

definition delete_task :: "env \<Rightarrow> string \<Rightarrow> store \<Rightarrow> reply \<times> store" where
  "delete_task e i st =
     (if \<not> isValid e (JStr i) then (Reply 400 (Error (Text ''invalid id'')), st)
      else
        (case Task_findByIdAndDelete e i st of
           (Inl x, st') \<Rightarrow> caught x st'
         | (Inr None, st') \<Rightarrow> not_found st'
         | (Inr (Some deleted), st') \<Rightarrow> (Reply 200 OkTrue, st')))"

section \<open>Notions of the specification\<close>

text \<open>The text \<open>x\<close> occurs in the title, letters compared in either case: the
  specification's reading of the parameter \<open>q\<close>.\<close>

fun starts_with :: "string \<Rightarrow> string \<Rightarrow> bool" where
  "starts_with [] s = True"
| "starts_with (p # ps) [] = False"
| "starts_with (p # ps) (c # cs) = (p = c \<and> starts_with ps cs)"

fun occurs_in :: "string \<Rightarrow> string \<Rightarrow> bool" where
  "occurs_in p [] = starts_with p []"
| "occurs_in p (c # cs) = (starts_with p (c # cs) \<or> occurs_in p cs)"

definition substring_ignoring_case :: "string \<Rightarrow> string \<Rightarrow> bool" where
  "substring_ignoring_case x ttl = occurs_in (toLowerCase x) (toLowerCase ttl)"

text \<open>The weekly total: the sum of \<open>durationMin\<close> over the sessions that started at or
  after the start of the day six days ago.\<close>

definition weekly_total :: "env \<Rightarrow> time \<Rightarrow> focus list \<Rightarrow> int" where
  "weekly_total e now ss =
     sum_list (map durationMin (filter (\<lambda>d. startOfNDaysAgo e now 6 \<le> startedAt d) ss))"

text \<open>A covered day: at least one task with status \<open>done\<close> has its \<open>completedAt\<close> within
  the calendar day \<open>d\<close>, days being those of UTC.\<close>

definition covered :: "task list \<Rightarrow> int \<Rightarrow> bool" where
  "covered ts d =
     list_ex (\<lambda>t. status t = Some ''done'' \<and> map_option utcDay (completedAt t) = Some d) ts"

text \<open>The status-transition rule: the completion time of a task \<open>t\<close> after an update
  whose body holds \<open>s\<close> under \<open>status\<close> (\<open>None\<close>: no such key), at time \<open>now\<close>.\<close>

definition completion_after :: "time \<Rightarrow> task \<Rightarrow> json option \<Rightarrow> time option" where
  "completion_after now t s =
     (case s of
        None \<Rightarrow> completedAt t
      | Some v \<Rightarrow>
          if status t \<noteq> Some ''done'' \<and> v = JStr ''done'' then Some now
          else if status t = Some ''done'' \<and> v \<noteq> JStr ''done'' then None
          else completedAt t)"

section \<open>An environment and stores for the examples\<close>

text \<open>
  The examples run in an environment that agrees with the platform on the values they
  use: an identifier is 24 hexadecimal digits, \<open>Number\<close> reads a string of decimal digits,
  a whole number is written in decimal (the examples cast no other number to a text),
  \<open>trim\<close> strips the white space of ASCII (the examples trim no text with other white
  space), no string is a date, and a pattern is made of letters, digits, spaces and dots, a dot standing for
  any character but a line feed (the example environment knows no other pattern and
  refuses it). The pattern is searched anywhere in the text, letters matching in either
  case. The time zone is a fixed offset from UTC, in minutes.
\<close>

function decimal_nat :: "nat \<Rightarrow> string" where
  "decimal_nat n =
     (if n < 10 then [char_of (48 + n)]
      else decimal_nat (n div 10) @ [char_of (48 + n mod 10)])"
  by pat_completeness auto
termination
  by (relation "measure id") auto

declare decimal_nat.simps [simp del]

definition decimal :: "rat \<Rightarrow> string" where
  "decimal x =
     (if x < 0 then CHR ''-'' # decimal_nat (nat (- \<lceil>x\<rceil>)) else decimal_nat (nat \<lfloor>x\<rfloor>))"

definition is_space :: "char \<Rightarrow> bool" where
  "is_space c = (c \<in> {CHR 0x09, CHR 0x0A, CHR 0x0B, CHR 0x0C, CHR 0x0D, CHR '' ''})"

definition ascii_trim :: "string \<Rightarrow> string" where
  "ascii_trim s = rev (dropWhile is_space (rev (dropWhile is_space s)))"

definition is_hex :: "char \<Rightarrow> bool" where
  "is_hex c =
     (let n = (of_char c :: nat)
      in (48 \<le> n \<and> n \<le> 57) \<or> (65 \<le> n \<and> n \<le> 70) \<or> (97 \<le> n \<and> n \<le> 102))"

definition hex24 :: "string \<Rightarrow> bool" where
  "hex24 s = (length s = 24 \<and> list_all is_hex s)"

definition is_digit :: "char \<Rightarrow> bool" where
  "is_digit c = (48 \<le> (of_char c :: nat) \<and> (of_char c :: nat) \<le> 57)"

definition decimal_value :: "string \<Rightarrow> int option" where
  "decimal_value s =
     (if s \<noteq> [] \<and> list_all is_digit s
      then Some (foldl (\<lambda>a c. 10 * a + (int (of_char c) - 48)) 0 s)
      else None)"

definition plain :: "char \<Rightarrow> bool" where
  "plain c =
     (let n = (of_char c :: nat)
      in (48 \<le> n \<and> n \<le> 57) \<or> (65 \<le> n \<and> n \<le> 90) \<or> (97 \<le> n \<and> n \<le> 122)
         \<or> n = 32 \<or> n = 46)"

fun matches_here :: "string \<Rightarrow> string \<Rightarrow> bool" where
  "matches_here [] s = True"
| "matches_here (p # ps) [] = False"
| "matches_here (p # ps) (c # cs) =
     (((p = CHR ''.'' \<and> c \<noteq> CHR 0x0A) \<or> toLowerCase [p] = toLowerCase [c])
      \<and> matches_here ps cs)"

fun search :: "string \<Rightarrow> string \<Rightarrow> bool" where
  "search p [] = matches_here p []"
| "search p (c # cs) = (matches_here p (c # cs) \<or> search p cs)"

definition example_regex :: "string \<Rightarrow> (string \<Rightarrow> bool) option" where
  "example_regex p = (if list_all plain p then Some (search p) else None)"

definition example_env :: "int \<Rightarrow> env" where
  "example_env off =
     \<lparr>isValid = (\<lambda>v. case v of JStr s \<Rightarrow> hex24 s | _ \<Rightarrow> False),
      castObjectId = (\<lambda>v. case v of JStr s \<Rightarrow> if hex24 s then Some (toLowerCase s) else None
                                   | _ \<Rightarrow> None),
      stringToNumber = (\<lambda>v. case v of JStr s \<Rightarrow> decimal_value s | _ \<Rightarrow> None),
      numberToString = decimal,
      trim = ascii_trim,
      parseDate = (\<lambda>v. None),
      regex = example_regex,
      localTime = (\<lambda>t. t + off * 60000),
      utcTime = (\<lambda>l. l - off * 60000)\<rparr>"


text \<open>A store that answers every call, and one that answers none.\<close>

definition store_of :: "task list \<Rightarrow> focus list \<Rightarrow> store" where
  "store_of ts ss = \<lparr>tasks = ts, sessions = ss, calls = 0, down = (\<lambda>n. False)\<rparr>"

definition unreachable :: "task list \<Rightarrow> focus list \<Rightarrow> store" where
  "unreachable ts ss = \<lparr>tasks = ts, sessions = ss, calls = 0, down = (\<lambda>n. True)\<rparr>"

text \<open>Identifiers, and one that is malformed.\<close>

definition id1 :: string where "id1 = ''64b7f0a1c2d3e4f5a6b7c8d1''"

definition id2 :: string where "id2 = ''64b7f0a1c2d3e4f5a6b7c8d2''"

definition id3 :: string where "id3 = ''64b7f0a1c2d3e4f5a6b7c8d3''"


definition bad_id :: string where "bad_id = ''not-an-id''"

definition a_task :: "string \<Rightarrow> string \<Rightarrow> string \<Rightarrow> time option \<Rightarrow> task" where
  "a_task i ttl sts done_at =
     \<lparr>oid = i, createdAt = 0, updatedAt = 0, title = ttl, notes = Some [],
      status = Some sts, priority = 2, dueDate = None, tags = [], completedAt = done_at\<rparr>"

definition a_session :: "string \<Rightarrow> time \<Rightarrow> time \<Rightarrow> int \<Rightarrow> focus" where
  "a_session i t0 t1 m =
     \<lparr>oid = i, createdAt = t0, updatedAt = t1, taskId = None,
      startedAt = t0, endedAt = t1, durationMin = m\<rparr>"

text \<open>Stopping a session: the request and a store with one open session.\<close>

definition stop_request :: "json option" where
  "stop_request = Some (JObj [(''sessionId'', JStr id1)])"

definition one_session :: store where
  "one_session = store_of [] [a_session id1 1000 1000 0]"

text \<open>Bodies for creating a task.\<close>

definition titled_done :: "json option" where
  "titled_done = Some (JObj [(''title'', JStr ''ship it''), (''status'', JStr ''done'')])"



text \<open>Noon of 10 January 2024 on a server two hours east of UTC (10:00 UTC).\<close>

definition noon :: time where "noon = 1704880800000"

text \<open>Three tasks completed at noon today, yesterday and the day before.\<close>

definition three_days :: store where
  "three_days =
     store_of [a_task id1 ''a'' ''done'' (Some noon),
               a_task id2 ''b'' ''done'' (Some (noon - 86400000)),
               a_task id3 ''c'' ''done'' (Some (noon - 2 * 86400000))] []"




text \<open>Bodies whose \<open>status\<close> or \<open>notes\<close> is an object with an \<open>_id\<close>.\<close>

definition done_by_object :: "json option" where
  "done_by_object = Some (JObj [(''status'', JObj [(''_id'', JStr ''done'')])])"


text \<open>Updating: a store with a task to do and a task done, and four bodies.\<close>

definition two_tasks :: store where
  "two_tasks =
     store_of [a_task id1 ''write report'' ''todo'' None,
               a_task id2 ''file taxes'' ''done'' (Some 3)] []"

definition mark_done :: "json option" where
  "mark_done = Some (JObj [(''status'', JStr ''done'')])"


definition reopen :: "json option" where
  "reopen = Some (JObj [(''status'', JStr ''todo'')])"

definition rename :: "json option" where
  "rename = Some (JObj [(''title'', JStr ''file the taxes'')])"

text \<open>Listing: a task and three queries.\<close>

definition abc_task :: task where
  "abc_task = (a_task id1 ''abc'' ''todo'' None)\<lparr>tags := [Some ''urgent'']\<rparr>"

definition dotted_query :: query where
  "dotted_query = [''tag'' \<mapsto> '' urgent'', ''q'' \<mapsto> ''a.c'']"

definition plain_query :: query where
  "plain_query = [''status'' \<mapsto> ''todo'', ''priority'' \<mapsto> ''2'', ''tag'' \<mapsto> ''urgent'',
                  ''q'' \<mapsto> ''AB'']"

definition sloppy_query :: query where
  "sloppy_query = [''status'' \<mapsto> ''finished'', ''priority'' \<mapsto> ''7'']"

section \<open>Facts about the store and the helpers\<close>

lemma perform_up:
  "\<not> down st (calls st) \<Longrightarrow>
   perform st f = (Inr (fst (f (st\<lparr>calls := Suc (calls st)\<rparr>))),
                   snd (f (st\<lparr>calls := Suc (calls st)\<rparr>)))"
  by (simp add: perform_def roundtrip_def split: prod.splits)

lemma perform_down:
  "down st (calls st) \<Longrightarrow> perform st f = (Inl StoreError, st\<lparr>calls := Suc (calls st)\<rparr>)"
  by (simp add: perform_def roundtrip_def)

lemma find_holds: "find p xs = Some x \<Longrightarrow> p x"
  by (induction xs) (auto split: if_splits)

lemma find_update_first:
  "(\<And>x. p x \<Longrightarrow> p (f x)) \<Longrightarrow> find p (update_first p f xs) = map_option f (find p xs)"
  by (induction xs) auto

lemma round_minutes: "round (real_of_int ms / 60000) = (ms + 30000) div 60000"
proof -
  have "real_of_int ms / 60000 + 1 / 2 = real_of_int (ms + 30000) / real_of_int 60000"
    by (simp add: field_simps)
  then show ?thesis
    unfolding round_def by (simp only: floor_divide_of_int_eq)
qed

lemma minutes_of_div: "minutes_of ms = max 0 ((ms + 30000) div 60000)"
proof -
  have "rat_of_int ms / 60000 + 1 / 2 = rat_of_int (ms + 30000) / rat_of_int 60000"
    by (simp add: field_simps)
  then have "round (rat_of_int ms / 60000) = (ms + 30000) div 60000"
    unfolding round_def by (simp only: floor_divide_of_int_eq)
  then show ?thesis by (simp add: minutes_of_def)
qed

lemma hex24_ids: "hex24 id1" "hex24 id2" "hex24 id3"
  by (simp_all add: hex24_def id1_def id2_def id3_def is_hex_def)

lemma lower_ids: "toLowerCase id1 = id1" "toLowerCase id2 = id2" "toLowerCase id3 = id3"
  by (simp_all add: toLowerCase_def id1_def id2_def id3_def)

section \<open>Stopping a focus session\<close>

text \<open>
  Claim C4. A session that started at \<open>T0\<close> and is stopped at \<open>T1\<close> (the request names
  it, the store answers) is answered with status 200 and stored with \<open>endedAt = T1\<close> and
  \<open>durationMin\<close> the quotient \<open>(T1 - T0) / 60000\<close> rounded to the nearest whole number
  (a half going up) and raised to 0 when negative; \<open>durationMin\<close> is never negative, and
  it is 0 when the clock went back (\<open>T1 < T0\<close>).
\<close>

theorem focus_stop_duration:
  assumes sid: "getProp body ''sessionId'' = Some v" "truthy v" "isValid e v"
    and cast: "castObjectId e v = Some i"
    and found: "find (\<lambda>d. oid d = i) (sessions st) = Some s"
    and up: "\<not> down st (calls st)" "\<not> down st (Suc (calls st))"
  shows "\<exists>s' st'. focus_stop e T1 stamp body st = (Reply 200 (SessionDoc s'), st')
          \<and> find (\<lambda>d. oid d = i) (sessions st') = Some s'
          \<and> startedAt s' = startedAt s
          \<and> endedAt s' = T1
          \<and> durationMin s' = max 0 (round (real_of_int (T1 - startedAt s) / 60000))
          \<and> 0 \<le> durationMin s'
          \<and> (T1 < startedAt s \<longrightarrow> durationMin s' = 0)"
proof -
  let ?m = "max 0 (round (real_of_int (T1 - startedAt s) / 60000))"
  let ?s = "s\<lparr>endedAt := T1, durationMin := ?m, updatedAt := stamp\<rparr>"
  have i: "oid s = i" using find_holds[OF found] .
  have m: "minutes_of (T1 - startedAt s) = ?m"
    by (simp only: minutes_of_div round_minutes)
  have run: "focus_stop e T1 stamp body st =
      (Reply 200 (SessionDoc ?s),
       st\<lparr>calls := Suc (Suc (calls st)),
          sessions := update_first (\<lambda>x. oid x = i) (\<lambda>x. ?s) (sessions st)\<rparr>)"
    using sid cast found up i
    by (simp add: focus_stop_def FocusSession_findById_def session_save_def perform_up m Let_def
        del: of_int_diff)
  have stored: "find (\<lambda>d. oid d = i) (update_first (\<lambda>x. oid x = i) (\<lambda>x. ?s) (sessions st)) = Some ?s"
    using found i by (simp add: find_update_first del: of_int_diff)
  have skew: "T1 < startedAt s \<longrightarrow> ?m = 0"
    by (simp only: round_minutes) (simp add: max_def)
  show ?thesis
    using run stored skew by (simp del: of_int_diff)
qed

text \<open>A session started at 1000 and stopped fifteen and a half minutes later counts 16
  minutes; stopped at 400, before its start, it counts none.\<close>

lemma stop_request_hyps:
  "getProp stop_request ''sessionId'' = Some (JStr id1)"
  "truthy (JStr id1)"
  "isValid (example_env 0) (JStr id1)"
  "castObjectId (example_env 0) (JStr id1) = Some id1"
  "find (\<lambda>d. oid d = id1) (sessions one_session) = Some (a_session id1 1000 1000 0)"
  "\<not> down one_session (calls one_session)"
  "\<not> down one_session (Suc (calls one_session))"
  by (simp_all add: stop_request_def lookup_def example_env_def hex24_ids lower_ids
      one_session_def store_of_def a_session_def) (simp add: id1_def)

theorem focus_stop_duration_witness:
  "(\<exists>s' st'. focus_stop (example_env 0) 931000 931007 stop_request one_session
               = (Reply 200 (SessionDoc s'), st')
             \<and> endedAt s' = 931000 \<and> durationMin s' = 16)
   \<and> (\<exists>s' st'. focus_stop (example_env 0) 400 400 stop_request one_session
               = (Reply 200 (SessionDoc s'), st')
             \<and> endedAt s' = 400 \<and> durationMin s' = 0)"
proof -
  have a: "max 0 (round (real_of_int (931000 - startedAt (a_session id1 1000 1000 0)) / 60000)) = 16"
    by (simp only: round_minutes) (simp add: a_session_def)
  have b: "max 0 (round (real_of_int (400 - startedAt (a_session id1 1000 1000 0)) / 60000)) = 0"
    by (simp only: round_minutes) (simp add: a_session_def)
  show ?thesis
    using focus_stop_duration[OF stop_request_hyps, of 931000 931007]
      focus_stop_duration[OF stop_request_hyps, of 400 400]
    unfolding a b by blast
qed

section \<open>Malformed identifiers\<close>

text \<open>
  Claim C8. For an identifier that \<open>ObjectId.isValid\<close> refuses, \<open>PATCH /tasks/:id\<close> and
  \<open>DELETE /tasks/:id\<close> answer 400 with \<open>invalid id\<close> (not 404, not 500), whatever the body
  and whatever the store would have answered; the store is returned as it was, its count
  of round trips included, so it was not consulted and nothing was modified.
\<close>

theorem malformed_id_rejected:
  assumes "\<not> isValid e (JStr i)"
  shows "update_task e now stamp i body st = (Reply 400 (Error (Text ''invalid id'')), st)
       \<and> delete_task e i st = (Reply 400 (Error (Text ''invalid id'')), st)"
  using assms by (simp add: update_task_def delete_task_def)

lemma bad_id_invalid: "\<not> isValid (example_env 0) (JStr bad_id)"
  by (simp add: example_env_def hex24_def bad_id_def)

theorem malformed_id_rejected_witness:
  "update_task (example_env 0) 5 6 bad_id (Some (JObj [(''status'', JStr ''done'')]))
      (unreachable [a_task id1 ''a'' ''todo'' None] [])
     = (Reply 400 (Error (Text ''invalid id'')), unreachable [a_task id1 ''a'' ''todo'' None] [])
   \<and> delete_task (example_env 0) bad_id (store_of [a_task id1 ''a'' ''todo'' None] [])
     = (Reply 400 (Error (Text ''invalid id'')), store_of [a_task id1 ''a'' ''todo'' None] [])"
  using malformed_id_rejected[OF bad_id_invalid] by simp

section \<open>Errors at the request boundary\<close>

text \<open>Every handler that wraps its body in \<open>try\<close>/\<open>catch\<close> answers, whatever the request
  and whatever the store does.\<close>

lemma perform_cases:
  "(\<exists>st'. perform st f = (Inl StoreError, st')) \<or> (\<exists>r st'. perform st f = (Inr r, st'))"
  by (simp add: perform_def roundtrip_def split: prod.splits)

lemma create_task_replies: "\<exists>c p st'. create_task e stamp new_id body st = (Reply c p, st')"
  using perform_cases
  by (auto simp add: create_task_def Task_create_def caught_def Let_def
      split: option.splits json.splits prod.splits sum.splits)

lemma delete_task_replies: "\<exists>c p st'. delete_task e i st = (Reply c p, st')"
  by (auto simp add: delete_task_def Task_findByIdAndDelete_def caught_def not_found_def
      split: option.splits prod.splits sum.splits)

lemma finish_update_replies: "\<exists>c p st'. finish_update e stamp i u st = (Reply c p, st')"
  by (auto simp add: finish_update_def caught_def not_found_def
      split: option.splits prod.splits sum.splits)

lemma update_task_replies: "\<exists>c p st'. update_task e now stamp i body st = (Reply c p, st')"
  using finish_update_replies
  by (auto simp add: update_task_def caught_def not_found_def Let_def
      split: option.splits prod.splits sum.splits)

lemma stats_overview_replies: "\<exists>c p st'. stats_overview e now st = (Reply c p, st')"
  by (auto simp add: stats_overview_def stats_failed_def Let_def
      split: option.splits prod.splits sum.splits)

lemma focus_start_replies: "\<exists>c p st'. focus_start e now stamp new_id body st = (Reply c p, st')"
  by (auto simp add: focus_start_def caught_def Let_def
      split: option.splits prod.splits sum.splits)

lemma focus_stop_replies: "\<exists>c p st'. focus_stop e now stamp body st = (Reply c p, st')"
  by (auto simp add: focus_stop_def caught_def Let_def
      split: option.splits prod.splits sum.splits)

theorem caught_at_the_boundary:
  "(\<exists>c p st'. create_task e stamp new_id body st = (Reply c p, st'))
   \<and> (\<exists>c p st'. update_task e now stamp i body st = (Reply c p, st'))
   \<and> (\<exists>c p st'. delete_task e i st = (Reply c p, st'))
   \<and> (\<exists>c p st'. stats_overview e now st = (Reply c p, st'))
   \<and> (\<exists>c p st'. focus_start e now stamp new_id body st = (Reply c p, st'))
   \<and> (\<exists>c p st'. focus_stop e now stamp body st = (Reply c p, st'))"
  by (intro conjI create_task_replies update_task_replies delete_task_replies
      stats_overview_replies focus_start_replies focus_stop_replies)

text \<open>
  Claim C5. The claim asks that every route turn a failing store call into a response
  with a JSON error payload. \<open>GET /tasks\<close> does not: when its one store call fails, the
  handler leaves no response, and the rejection escapes the request boundary.
\<close>

theorem list_tasks_failure_escapes:
  assumes "down st (calls st)"
  shows "list_tasks e q st = (Escaped StoreError, st\<lparr>calls := Suc (calls st)\<rparr>)"
  using assms
  by (simp add: list_tasks_def Task_find_def perform_down roundtrip_def split: option.splits)

theorem list_tasks_failure_escapes_witness:
  "list_tasks (example_env 0) Map.empty (unreachable [] [])
     = (Escaped StoreError, \<lparr>tasks = [], sessions = [], calls = 1, down = (\<lambda>n. True)\<rparr>)"
proof -
  have "down (unreachable [] []) (calls (unreachable [] []))"
    by (simp add: unreachable_def)
  from list_tasks_failure_escapes[OF this, of "example_env 0" Map.empty]
  show ?thesis by (simp add: unreachable_def)
qed

text \<open>The same happens with a reachable store and a parameter \<open>q\<close> that is not a
  pattern, such as an opening parenthesis.\<close>

lemma bad_pattern_escapes:
  "list_tasks (example_env 0) [''q'' \<mapsto> ''(''] (store_of [] [])
     = (Escaped StoreError, \<lparr>tasks = [], sessions = [], calls = 1, down = (\<lambda>n. False)\<rparr>)"
  by (simp add: list_tasks_def Task_find_def build_where_def ascii_trim_def is_space_def
      example_env_def example_regex_def plain_def roundtrip_def store_of_def)

section \<open>Creating a task\<close>










text \<open>
  Claim C10. A body with a non-empty string as title and \<open>status\<close> set to \<open>done\<close> is
  created as it is asked (the store answering): the answer is 201, and the task that is
  returned and stored has status \<open>done\<close> and no \<open>completedAt\<close>.
\<close>

theorem create_done_without_completedAt:
  assumes "ttl \<noteq> []" "\<not> down st (calls st)"
  shows "\<exists>doc. create_task e stamp new_id
                 (Some (JObj [(''title'', JStr ttl), (''status'', JStr ''done'')])) st
               = (Reply 201 (TaskDoc doc), st\<lparr>calls := Suc (calls st), tasks := tasks st @ [doc]\<rparr>)
             \<and> title doc = ttl \<and> status doc = Some ''done'' \<and> completedAt doc = None"
  using assms
  by (simp add: create_task_def Task_create_def cast_document_def literal_def lookup_def
      orElse_def valid_title_def valid_status_def valid_priority_def valid_date_def
      perform_def roundtrip_def Let_def)

theorem create_done_without_completedAt_witness:
  "\<exists>doc. create_task (example_env 0) 7 id1 titled_done (store_of [] [])
           = (Reply 201 (TaskDoc doc), (store_of [] [])\<lparr>calls := 1, tasks := [doc]\<rparr>)
         \<and> title doc = ''ship it'' \<and> status doc = Some ''done'' \<and> completedAt doc = None"
  using create_done_without_completedAt[of "''ship it''" "store_of [] []" "example_env 0" 7 id1]
  by (simp add: titled_done_def store_of_def)

section \<open>Statistics\<close>

lemma perform_query_up:
  "\<not> down st (calls st) \<Longrightarrow>
   perform st (\<lambda>s. (f s, s)) = (Inr (f (st\<lparr>calls := Suc (calls st)\<rparr>)), st\<lparr>calls := Suc (calls st)\<rparr>)"
  by (simp add: perform_up)

lemma stats_overview_up:
  assumes "\<not> down st (calls st)" "\<not> down st (Suc (calls st))" "\<not> down st (Suc (Suc (calls st)))"
  shows "stats_overview e now st =
     (Reply 200 (Stats (length (filter (since_done (startOfDay e now)) (tasks st)))
        (streak_loop e now
           (remdups (List.map_filter
              (\<lambda>x. if since_done (startOfNDaysAgo e now 60) x
                    then map_option utcDay (completedAt x) else None) (tasks st))) 0 0)
        (weekly_total e now (sessions st))),
      st\<lparr>calls := Suc (Suc (Suc (calls st)))\<rparr>)"
  using assms
  by (simp add: stats_overview_def Task_countDocuments_def Task_aggregate_def
      FocusSession_aggregate_def perform_query_up Let_def weekly_total_def)












text \<open>
  The day the scan looks up at offset \<open>i\<close> is the UTC date of local midnight \<open>i\<close> days
  ago. At a fixed offset east of UTC that is the calendar day before the local day \<open>i\<close>
  days ago; only at offset zero is it the day of \<open>now\<close> moved back by \<open>i\<close> days.
\<close>

lemma div_shift: "(a - k * d) div d = a div d - k" if "d \<noteq> 0" for a d k :: int
  using div_mult_self4[of d "- k" a] that by (simp add: algebra_simps)

lemma day_before:
  fixes L off d :: int
  assumes "0 < off" "off \<le> d"
  shows "(L * d - off) div d = L - 1"
proof -
  have "L * d - off = d * (L - 1) + (d - off)" by (simp add: algebra_simps)
  moreover have "0 \<le> d - off" "d - off < d" using assms by simp_all
  ultimately show ?thesis by (rule int_div_pos_eq)
qed

lemma scan_key:
  assumes "\<And>t. localTime e t = t + off" "\<And>l. utcTime e l = l - off"
  shows "utcDay (startOfNDaysAgo e now i)
     = ((now + off) div 86400000 * 86400000 - off) div 86400000 - int i"
proof -
  have "startOfNDaysAgo e now i = ((now + off) div 86400000 * 86400000 - off) - int i * 86400000"
    by (simp add: startOfNDaysAgo_def startOfDay_def assms Let_def)
  then show ?thesis
    unfolding utcDay_def by (simp only: div_shift)
qed

lemma scan_key_east:
  assumes "\<And>t. localTime e t = t + off" "\<And>l. utcTime e l = l - off"
    and "0 < off" "off \<le> 86400000"
  shows "utcDay (startOfNDaysAgo e now i) = (now + off) div 86400000 - 1 - int i"
  using day_before[OF assms(3,4), of "(now + off) div 86400000"]
  unfolding scan_key[OF assms(1,2)] by simp

lemma scan_key_utc:
  assumes "\<And>t. localTime e t = t" "\<And>l. utcTime e l = l"
  shows "utcDay (startOfNDaysAgo e now i) = utcDay now - int i"
  using scan_key[of e 0 now i] assms by (simp add: utcDay_def)

text \<open>
  Claim C2. The claim asks that tasks completed today, yesterday and the day before, with
  none on the day before that, give a streak of 3. On a server two hours east of UTC, at
  local noon, with the three tasks completed at local noon of those days, the route answers
  a streak of 2 (and counts one task completed today): the completions are bucketed by UTC
  date, and the scan looks up the UTC date of the local midnights.
\<close>

theorem streak_mixes_time_zones:
  "stats_overview (example_env 120) noon three_days
     = (Reply 200 (Stats 1 2 0), three_days\<lparr>calls := 3\<rparr>)"
  by (simp add: stats_overview_def Task_countDocuments_def Task_aggregate_def
      FocusSession_aggregate_def perform_def roundtrip_def three_days_def store_of_def
      a_task_def noon_def example_env_def startOfDay_def startOfNDaysAgo_def utcDay_def
      since_done_def List.map_filter_def streak_loop.simps Let_def)

theorem streak_mixes_time_zones_witness:
  "fst (stats_overview (example_env 120) noon three_days) = Reply 200 (Stats 1 2 0)"
  using streak_mixes_time_zones by simp

text \<open>The same store on a server at offset zero gives 3, and east of UTC a task
  completed this very moment does not count for today.\<close>

lemma streak_in_utc:
  "stats_overview (example_env 0) noon three_days
     = (Reply 200 (Stats 1 3 0), three_days\<lparr>calls := 3\<rparr>)"
  by (simp add: stats_overview_def Task_countDocuments_def Task_aggregate_def
      FocusSession_aggregate_def perform_def roundtrip_def three_days_def store_of_def
      a_task_def noon_def example_env_def startOfDay_def startOfNDaysAgo_def utcDay_def
      since_done_def List.map_filter_def streak_loop.simps Let_def)

lemma completed_now_not_counted:
  "stats_overview (example_env 120) noon (store_of [a_task id1 ''a'' ''done'' (Some noon)] [])
     = (Reply 200 (Stats 1 0 0), (store_of [a_task id1 ''a'' ''done'' (Some noon)] [])\<lparr>calls := 3\<rparr>)"
  by (simp add: stats_overview_def Task_countDocuments_def Task_aggregate_def
      FocusSession_aggregate_def perform_def roundtrip_def store_of_def
      a_task_def noon_def example_env_def startOfDay_def startOfNDaysAgo_def utcDay_def
      since_done_def List.map_filter_def streak_loop.simps Let_def)

text \<open>The loop counts the offsets from 0 whose day is among the buckets, up to the
  first that is not and at most 60 of them.\<close>

lemma streak_loop_scan:
  "i \<le> 60 \<Longrightarrow>
   \<exists>k. streak_loop e now days i s = s + k \<and> i + k \<le> 60
     \<and> (\<forall>j. i \<le> j \<and> j < i + k \<longrightarrow> utcDay (startOfNDaysAgo e now j) \<in> set days)
     \<and> (i + k < 60 \<longrightarrow> utcDay (startOfNDaysAgo e now (i + k)) \<notin> set days)"
proof (induction e now days i s rule: streak_loop.induct)
  case (1 e now days i s)
  show ?case
  proof (cases "i < 60 \<and> utcDay (startOfNDaysAgo e now i) \<in> set days")
    case True
    then have "i + 1 \<le> 60" by simp
    from "1.IH"[OF _ _ this] True obtain k where
      k: "streak_loop e now days (i + 1) (s + 1) = s + 1 + k" "i + 1 + k \<le> 60"
      "\<forall>j. i + 1 \<le> j \<and> j < i + 1 + k \<longrightarrow> utcDay (startOfNDaysAgo e now j) \<in> set days"
      "i + 1 + k < 60 \<longrightarrow> utcDay (startOfNDaysAgo e now (i + 1 + k)) \<notin> set days"
      by auto
    have run: "streak_loop e now days i s = s + (k + 1)"
      using True k(1) by (subst streak_loop.simps) simp
    have all: "\<forall>j. i \<le> j \<and> j < i + (k + 1) \<longrightarrow> utcDay (startOfNDaysAgo e now j) \<in> set days"
    proof (intro allI impI)
      fix j assume j: "i \<le> j \<and> j < i + (k + 1)"
      show "utcDay (startOfNDaysAgo e now j) \<in> set days"
      proof (cases "j = i")
        case True
        with \<open>i < 60 \<and> utcDay (startOfNDaysAgo e now i) \<in> set days\<close> show ?thesis by simp
      next
        case False
        with j k(3) show ?thesis by simp
      qed
    qed
    show ?thesis
      using run k(2,4) all by (intro exI[of _ "k + 1"]) (simp add: add.assoc add.commute)
  next
    case False
    then have "streak_loop e now days i s = s + 0"
      by (subst streak_loop.simps) auto
    with False "1.prems" show ?thesis
      by (intro exI[of _ 0]) auto
  qed
qed

lemma in_days:
  "d \<in> set (remdups (List.map_filter
       (\<lambda>x. if since_done since x then map_option utcDay (completedAt x) else None) ts))
   \<longleftrightarrow> (\<exists>x \<in> set ts. \<exists>c. status x = Some ''done'' \<and> completedAt x = Some c \<and> since \<le> c
          \<and> utcDay c = d)"
  by (induction ts) (auto simp add: map_filter_simps since_done_def split: option.splits)

lemma covered_iff:
  "covered ts d \<longleftrightarrow> (\<exists>x \<in> set ts. \<exists>c. status x = Some ''done'' \<and> completedAt x = Some c
          \<and> utcDay c = d)"
  by (auto simp add: covered_def list_ex_iff)

lemma day_start_le: "utcDay c * 86400000 \<le> c"
  by (simp add: utcDay_def)

lemma in_days_utc:
  assumes "\<And>t. localTime e t = t" "\<And>l. utcTime e l = l" and "i < 60"
  shows "utcDay (startOfNDaysAgo e now i) \<in> set (remdups (List.map_filter
       (\<lambda>x. if since_done (startOfNDaysAgo e now 60) x then map_option utcDay (completedAt x)
             else None) ts))
   \<longleftrightarrow> covered ts (utcDay now - int i)"
proof -
  have key: "utcDay (startOfNDaysAgo e now i) = utcDay now - int i"
    using scan_key_utc[OF assms(1,2)] .
  have since: "startOfNDaysAgo e now 60 = (utcDay now - 60) * 86400000"
    by (simp add: startOfNDaysAgo_def startOfDay_def utcDay_def assms(1,2) Let_def)
  have bound: "startOfNDaysAgo e now 60 \<le> c" if "utcDay c = utcDay now - int i" for c
  proof -
    have "(utcDay now - 60) * 86400000 \<le> utcDay c * 86400000"
      using that assms(3) by simp
    also have "\<dots> \<le> c" by (rule day_start_le)
    finally show ?thesis by (simp only: since)
  qed
  show ?thesis
    unfolding key in_days covered_iff using bound by blast
qed

text \<open>
  On a server whose local time is UTC the scan and the buckets use the same days, and the streak is what the
  specification describes: with the store answering, the streak \<open>k\<close> is at most 60, the
  days of \<open>now\<close> back to \<open>k - 1\<close> days before are covered, and, unless \<open>k\<close> is 60, the day
  \<open>k\<close> days before \<open>now\<close> is not. An uncovered day 0 gives 0.
\<close>

theorem streak_at_offset_zero:
  assumes "\<And>t. localTime e t = t" "\<And>l. utcTime e l = l"
    and "\<not> down st (calls st)" "\<not> down st (Suc (calls st))" "\<not> down st (Suc (Suc (calls st)))"
  shows "\<exists>c k w st'. stats_overview e now st = (Reply 200 (Stats c k w), st')
           \<and> k \<le> 60
           \<and> (\<forall>i<k. covered (tasks st) (utcDay now - int i))
           \<and> (k < 60 \<longrightarrow> \<not> covered (tasks st) (utcDay now - int k))"
proof -
  let ?days = "remdups (List.map_filter
       (\<lambda>x. if since_done (startOfNDaysAgo e now 60) x then map_option utcDay (completedAt x)
             else None) (tasks st))"
  from streak_loop_scan[of 0 e now ?days 0] obtain k where
    k: "streak_loop e now ?days 0 0 = k" "k \<le> 60"
    "\<forall>j. j < k \<longrightarrow> utcDay (startOfNDaysAgo e now j) \<in> set ?days"
    "k < 60 \<longrightarrow> utcDay (startOfNDaysAgo e now k) \<notin> set ?days"
    by auto
  have a: "\<forall>i<k. covered (tasks st) (utcDay now - int i)"
    using k(2,3) in_days_utc[OF assms(1,2), of _ now "tasks st"] by auto
  have b: "k < 60 \<longrightarrow> \<not> covered (tasks st) (utcDay now - int k)"
    using k(4) in_days_utc[OF assms(1,2), of k now "tasks st"] by auto
  show ?thesis
    using stats_overview_up[OF assms(3,4,5), of e now] k(1,2) a b by auto
qed

lemma three_days_up:
  "\<not> down three_days (calls three_days)" "\<not> down three_days (Suc (calls three_days))"
  "\<not> down three_days (Suc (Suc (calls three_days)))"
  by (simp_all add: three_days_def store_of_def)

theorem streak_at_offset_zero_witness:
  "\<exists>c k w st'. stats_overview (example_env 0) noon three_days = (Reply 200 (Stats c k w), st')
     \<and> k = 3 \<and> covered (tasks three_days) (utcDay noon)
     \<and> covered (tasks three_days) (utcDay noon - 1)
     \<and> covered (tasks three_days) (utcDay noon - 2)
     \<and> \<not> covered (tasks three_days) (utcDay noon - 3)"
proof -
  have z: "\<And>t. localTime (example_env 0) t = t" "\<And>l. utcTime (example_env 0) l = l"
    by (simp_all add: example_env_def)
  have c: "covered (tasks three_days) (utcDay noon)"
     "covered (tasks three_days) (utcDay noon - 1)"
     "covered (tasks three_days) (utcDay noon - 2)"
     "\<not> covered (tasks three_days) (utcDay noon - 3)"
    by (simp_all add: covered_def three_days_def store_of_def a_task_def utcDay_def noon_def)
  from streak_at_offset_zero[OF z three_days_up, of noon]
  show ?thesis
    using c streak_in_utc by auto
qed

section \<open>Updating a task\<close>

lemma valid_status_text: "valid_status e (JStr s) = Some r \<Longrightarrow> r = Some s"
  by (auto simp add: valid_status_def split: if_splits)

lemma cast_update_SomeD:
  assumes "cast_update e u = Some f"
  shows "\<exists>t n s p d g.
           optionally (valid_status e) (u_status u) = Some s
         \<and> f = (\<lambda>x. x\<lparr>title := orElse t (title x), notes := orElse n (notes x),
                    status := orElse s (status x), priority := orElse p (priority x),
                    dueDate := orElse d (dueDate x), tags := orElse g (tags x),
                    completedAt := orElse (u_completedAt u) (completedAt x)\<rparr>)"
  using assms
  apply (auto simp add: cast_update_def split: bind_splits)
  apply (intro exI)
  apply (rule refl)
  done

lemma cast_update_frame:
  assumes "cast_update e u = Some f"
  shows "oid (f x) = oid x \<and> createdAt (f x) = createdAt x
       \<and> completedAt (f x) = orElse (u_completedAt u) (completedAt x)
       \<and> (u_status u = None \<longrightarrow> status (f x) = status x)
       \<and> (\<forall>v. u_status u = Some v \<longrightarrow> valid_status e v = Some (status (f x)))"
proof -
  obtain t n s p d g where
    s: "optionally (valid_status e) (u_status u) = Some s"
    and f: "f = (\<lambda>x. x\<lparr>title := orElse t (title x), notes := orElse n (notes x),
                    status := orElse s (status x), priority := orElse p (priority x),
                    dueDate := orElse d (dueDate x), tags := orElse g (tags x),
                    completedAt := orElse (u_completedAt u) (completedAt x)\<rparr>)"
    using cast_update_SomeD[OF assms] by blast
  have "u_status u = None \<longrightarrow> orElse s (status x) = status x"
    using s by (auto simp add: optionally_def orElse_def)
  moreover have "\<forall>v. u_status u = Some v \<longrightarrow> valid_status e v = Some (orElse s (status x))"
    using s by (auto simp add: optionally_def orElse_def)
  ultimately show ?thesis by (simp add: f)
qed

lemma finish_update_found:
  assumes "castObjectId e (JStr i) = Some k" "find (\<lambda>x. oid x = k) (tasks st) = Some t"
  shows "finish_update e stamp i u st =
     (case cast_update e u of
        None \<Rightarrow> (Reply 400 (Error (MessageOf ValidationError)), st)
      | Some f \<Rightarrow>
          if down st (calls st)
          then (Reply 400 (Error (MessageOf StoreError)), st\<lparr>calls := Suc (calls st)\<rparr>)
          else (Reply 200 (TaskDoc ((f t)\<lparr>updatedAt := stamp\<rparr>)),
                st\<lparr>calls := Suc (calls st),
                   tasks := update_first (\<lambda>x. oid x = k) (\<lambda>x. (f x)\<lparr>updatedAt := stamp\<rparr>)
                              (tasks st)\<rparr>))"
  using assms
  by (simp add: finish_update_def Task_findByIdAndUpdate_def caught_def perform_def
      roundtrip_def split: option.splits)

lemma update_task_found:
  assumes "isValid e (JStr i)" "castObjectId e (JStr i) = Some k"
    "find (\<lambda>x. oid x = k) (tasks st) = Some t" "properties body = Some b"
  shows "update_task e now stamp i body st =
     (case u_status (build_update e b) of
        None \<Rightarrow> finish_update e stamp i (build_update e b) st
      | Some v \<Rightarrow>
          if down st (calls st)
          then (Reply 400 (Error (MessageOf StoreError)), st\<lparr>calls := Suc (calls st)\<rparr>)
          else finish_update e stamp i (transition now (status t) v (build_update e b))
                 (st\<lparr>calls := Suc (calls st)\<rparr>))"
  using assms
  by (simp add: update_task_def Task_findById_def caught_def perform_def roundtrip_def Let_def
      split: option.splits)

lemma build_update_status: "u_status (build_update e b) = b ''status''"
  by (simp add: build_update_def allowed_def Let_def)

lemma build_update_completedAt: "u_completedAt (build_update e b) = None"
  by (simp add: build_update_def Let_def)

lemma transition_fields:
  "u_status (transition now cur v u) = u_status u"
  "u_completedAt (transition now cur v u) =
     (if cur \<noteq> Some ''done'' \<and> v = JStr ''done'' then Some (Some now)
      else if cur = Some ''done'' \<and> v \<noteq> JStr ''done'' then Some None
      else u_completedAt u)"
  by (simp_all add: transition_def)

lemma update_task_cases:
  assumes "isValid e (JStr i)" "castObjectId e (JStr i) = Some k"
    "find (\<lambda>x. oid x = k) (tasks st) = Some t" "properties body = Some b"
    "update_task e now stamp i body st = (r, st')"
  shows "(\<exists>t'. r = Reply 200 (TaskDoc t')
            \<and> tasks st' = update_first (\<lambda>x. oid x = k) (\<lambda>x. t') (tasks st)
            \<and> find (\<lambda>x. oid x = k) (tasks st') = Some t'
            \<and> sessions st' = sessions st
            \<and> oid t' = oid t \<and> createdAt t' = createdAt t \<and> updatedAt t' = stamp
            \<and> completedAt t' = completion_after now t (b ''status'')
            \<and> (b ''status'' = None \<longrightarrow> status t' = status t)
            \<and> (\<forall>v. b ''status'' = Some v \<longrightarrow> valid_status e v = Some (status t')))
       \<or> ((\<exists>x. r = Reply 400 (Error (MessageOf x))) \<and> tasks st' = tasks st
            \<and> sessions st' = sessions st)"
proof -
  let ?u0 = "build_update e b"
  have k: "oid t = k" using find_holds[OF assms(3)] .
  have fin: "\<And>u s r' s'. tasks s = tasks st \<Longrightarrow> sessions s = sessions st \<Longrightarrow>
      u_status u = b ''status'' \<Longrightarrow>
      orElse (u_completedAt u) (completedAt t) = completion_after now t (b ''status'') \<Longrightarrow>
      finish_update e stamp i u s = (r', s') \<Longrightarrow>
      (\<exists>t'. r' = Reply 200 (TaskDoc t')
            \<and> tasks s' = update_first (\<lambda>x. oid x = k) (\<lambda>x. t') (tasks st)
            \<and> find (\<lambda>x. oid x = k) (tasks s') = Some t'
            \<and> sessions s' = sessions st
            \<and> oid t' = oid t \<and> createdAt t' = createdAt t \<and> updatedAt t' = stamp
            \<and> completedAt t' = completion_after now t (b ''status'')
            \<and> (b ''status'' = None \<longrightarrow> status t' = status t)
            \<and> (\<forall>v. b ''status'' = Some v \<longrightarrow> valid_status e v = Some (status t')))
       \<or> ((\<exists>x. r' = Reply 400 (Error (MessageOf x))) \<and> tasks s' = tasks st
            \<and> sessions s' = sessions st)"
  proof -
    fix u s r' s'
    assume s: "tasks s = tasks st" "sessions s = sessions st"
      and us: "u_status u = b ''status''"
      and uc: "orElse (u_completedAt u) (completedAt t) = completion_after now t (b ''status'')"
      and run: "finish_update e stamp i u s = (r', s')"
    have found: "find (\<lambda>x. oid x = k) (tasks s) = Some t" using assms(3) s by simp
    note eq = finish_update_found[OF assms(2) found, of stamp u]
    show "(\<exists>t'. r' = Reply 200 (TaskDoc t')
            \<and> tasks s' = update_first (\<lambda>x. oid x = k) (\<lambda>x. t') (tasks st)
            \<and> find (\<lambda>x. oid x = k) (tasks s') = Some t'
            \<and> sessions s' = sessions st
            \<and> oid t' = oid t \<and> createdAt t' = createdAt t \<and> updatedAt t' = stamp
            \<and> completedAt t' = completion_after now t (b ''status'')
            \<and> (b ''status'' = None \<longrightarrow> status t' = status t)
            \<and> (\<forall>v. b ''status'' = Some v \<longrightarrow> valid_status e v = Some (status t')))
       \<or> ((\<exists>x. r' = Reply 400 (Error (MessageOf x))) \<and> tasks s' = tasks st
            \<and> sessions s' = sessions st)"
    proof (cases "cast_update e u")
      case None
      with eq run s show ?thesis by auto
    next
      case (Some f)
      note fr = cast_update_frame[OF Some, of t]
      show ?thesis
      proof (cases "down s (calls s)")
        case True
        with eq run s Some show ?thesis by auto
      next
        case False
        let ?t = "(f t)\<lparr>updatedAt := stamp\<rparr>"
        have r': "r' = Reply 200 (TaskDoc ?t)"
          and s': "s' = s\<lparr>calls := Suc (calls s),
                   tasks := update_first (\<lambda>x. oid x = k) (\<lambda>x. (f x)\<lparr>updatedAt := stamp\<rparr>)
                              (tasks s)\<rparr>"
          using eq run Some False by auto
        have same: "update_first (\<lambda>x. oid x = k) (\<lambda>x. (f x)\<lparr>updatedAt := stamp\<rparr>) xs
            = update_first (\<lambda>x. oid x = k) (\<lambda>x. ?t) xs"
          if "find (\<lambda>x. oid x = k) xs = Some t" for xs
          using that by (induction xs) (auto split: if_splits)
        have kept: "find (\<lambda>x. oid x = k) (update_first (\<lambda>x. oid x = k) (\<lambda>x. ?t) (tasks st))
            = Some ?t"
          using assms(3) fr k by (simp add: find_update_first)
        show ?thesis
          using r' s' s same[OF found] kept fr us uc by auto
      qed
    qed
  qed
  have u0: "orElse (u_completedAt ?u0) (completedAt t) = completedAt t"
    by (simp add: build_update_completedAt orElse_def)
  note eq = update_task_found[OF assms(1,2,3,4), of now stamp]
  show ?thesis
  proof (cases "b ''status''")
    case None
    then have run: "finish_update e stamp i ?u0 st = (r, st')"
      using eq assms(5) by (simp add: build_update_status)
    show ?thesis
      using fin[OF _ _ _ _ run] None u0
      by (simp add: build_update_status completion_after_def)
  next
    case (Some v)
    show ?thesis
    proof (cases "down st (calls st)")
      case True
      then show ?thesis using eq assms(5) Some by (auto simp add: build_update_status)
    next
      case False
      let ?u = "transition now (status t) v ?u0"
      have run: "finish_update e stamp i ?u (st\<lparr>calls := Suc (calls st)\<rparr>) = (r, st')"
        using eq assms(5) Some False by (simp add: build_update_status)
      have uc: "orElse (u_completedAt ?u) (completedAt t) = completion_after now t (b ''status'')"
        by (simp add: transition_fields build_update_completedAt orElse_def completion_after_def
            Some)
      show ?thesis
        using fin[OF _ _ _ uc run]
        by (simp add: transition_fields build_update_status)
    qed
  qed
qed

lemma properties_status:
  "properties body = Some b \<Longrightarrow> b ''status'' = getProp body ''status''"
  by (cases body rule: properties.cases) auto

lemma update_task_no_properties:
  "isValid e (JStr i) \<Longrightarrow> properties body = None \<Longrightarrow>
   update_task e now stamp i body st = (Reply 400 (Error (MessageOf TypeError)), st)"
  by (simp add: update_task_def caught_def)

text \<open>
  The status-transition rule, for an update of an existing task whose body has no
  \<open>status\<close> or has a text as \<open>status\<close>: either the answer is 200 with the updated task,
  which is the task the store then holds, or the answer is 400 and the tasks are as they
  were. In the first case: if the task was not \<open>done\<close> and is \<open>done\<close> afterwards, its
  \<open>completedAt\<close> is the time of the request; if it was \<open>done\<close> and is not afterwards, its
  \<open>completedAt\<close> is absent; if the body has no \<open>status\<close>, or the status is the same
  afterwards, \<open>completedAt\<close> is what it was.
\<close>

lemma status_transition_of_text:
  assumes "isValid e (JStr i)" "castObjectId e (JStr i) = Some k"
    "find (\<lambda>x. oid x = k) (tasks st) = Some t"
    "update_task e now stamp i body st = (r, st')"
    "getProp body ''status'' = None \<or> (\<exists>s. getProp body ''status'' = Some (JStr s))"
  shows "(\<exists>t'. r = Reply 200 (TaskDoc t')
            \<and> find (\<lambda>x. oid x = k) (tasks st') = Some t'
            \<and> (status t \<noteq> Some ''done'' \<and> status t' = Some ''done''
                 \<longrightarrow> completedAt t' = Some now)
            \<and> (status t = Some ''done'' \<and> status t' \<noteq> Some ''done''
                 \<longrightarrow> completedAt t' = None)
            \<and> (getProp body ''status'' = None \<or> status t' = status t
                 \<longrightarrow> completedAt t' = completedAt t))
       \<or> ((\<exists>x. r = Reply 400 (Error (MessageOf x))) \<and> tasks st' = tasks st)"
proof (cases "properties body")
  case None
  then show ?thesis
    using update_task_no_properties[OF assms(1) None, of now stamp st] assms(4) by auto
next
  case (Some b)
  note st = properties_status[OF Some]
  have shape: "b ''status'' = None \<or> (\<exists>s. b ''status'' = Some (JStr s))"
    using assms(5) by (simp only: st)
  from update_task_cases[OF assms(1,2,3) Some assms(4)]
  show ?thesis
  proof (elim disjE exE conjE)
    fix t'
    assume r: "r = Reply 200 (TaskDoc t')"
      and kept: "find (\<lambda>x. oid x = k) (tasks st') = Some t'"
      and c: "completedAt t' = completion_after now t (b ''status'')"
      and absent: "b ''status'' = None \<longrightarrow> status t' = status t"
      and present: "\<forall>v. b ''status'' = Some v \<longrightarrow> valid_status e v = Some (status t')"
    have done_iff: "status t' = Some ''done'' \<longleftrightarrow> v = JStr ''done''" if "b ''status'' = Some v" for v
    proof -
      from shape that obtain s where v: "v = JStr s" by auto
      from present that v have "valid_status e (JStr s) = Some (status t')" by simp
      then have "status t' = Some s" by (rule valid_status_text)
      then show ?thesis using v by auto
    qed
    have a: "status t \<noteq> Some ''done'' \<and> status t' = Some ''done'' \<longrightarrow> completedAt t' = Some now"
      using c absent done_iff by (cases "b ''status''") (auto simp add: completion_after_def)
    have b: "status t = Some ''done'' \<and> status t' \<noteq> Some ''done'' \<longrightarrow> completedAt t' = None"
      using c absent done_iff by (cases "b ''status''") (auto simp add: completion_after_def)
    have "b ''status'' = None \<or> status t' = status t \<longrightarrow> completedAt t' = completedAt t"
      using c absent done_iff by (cases "b ''status''") (auto simp add: completion_after_def)
    then have d: "getProp body ''status'' = None \<or> status t' = status t
        \<longrightarrow> completedAt t' = completedAt t"
      by (simp only: st)
    show ?thesis using r kept a b d by blast
  next
    fix x
    assume "r = Reply 400 (Error (MessageOf x))" "tasks st' = tasks st"
    then show ?thesis by blast
  qed
qed

lemma cast_update_by_object:
  "cast_update e (transition now cur (JObj [(''_id'', JStr ''done'')])
       (build_update e (lookup [(''status'', JObj [(''_id'', JStr ''done'')])])))
     = Some (\<lambda>x. x\<lparr>status := Some ''done'',
                   completedAt := (if cur = Some ''done'' then None else completedAt x)\<rparr>)"
  by (auto simp add: cast_update_def transition_def build_update_def allowed_def lookup_def
      optionally_def valid_status_def orElse_def Let_def)

text \<open>
  Claim C1. The claim asks that an update that takes a task from a status other than
  \<open>done\<close> to \<open>done\<close> sets \<open>completedAt\<close> to the current time, and that \<open>completedAt\<close> is
  unchanged when the status stays what it was. The handler decides by comparing the value
  of \<open>status\<close> in the body, as it was sent, with the text \<open>done\<close>, whereas the store casts
  that value to a text before it writes it, and casts an object with a text \<open>_id\<close> to that
  \<open>_id\<close>. So for a body \<open>{"status": {"_id": "done"}}\<close>, an existing task and a store that
  answers, the answer is 200 and the task is persisted as \<open>done\<close>, with its \<open>completedAt\<close>
  left as it was if the task was not \<open>done\<close> (absent for a task that never was), and
  cleared if the task was \<open>done\<close> already.
\<close>

theorem status_object_skips_completedAt:
  assumes "isValid e (JStr i)" "castObjectId e (JStr i) = Some k"
    "find (\<lambda>x. oid x = k) (tasks st) = Some t"
    "\<not> down st (calls st)" "\<not> down st (Suc (calls st))"
  shows "\<exists>st'. update_task e now stamp i done_by_object st
            = (Reply 200 (TaskDoc (t\<lparr>status := Some ''done'',
                 completedAt := (if status t = Some ''done'' then None else completedAt t),
                 updatedAt := stamp\<rparr>)), st')
          \<and> find (\<lambda>x. oid x = k) (tasks st')
            = Some (t\<lparr>status := Some ''done'',
                 completedAt := (if status t = Some ''done'' then None else completedAt t),
                 updatedAt := stamp\<rparr>)"
proof -
  let ?b = "lookup [(''status'', JObj [(''_id'', JStr ''done'')])]"
  let ?t = "t\<lparr>status := Some ''done'',
                 completedAt := (if status t = Some ''done'' then None else completedAt t),
                 updatedAt := stamp\<rparr>"
  have k: "oid t = k" using find_holds[OF assms(3)] .
  have p: "properties done_by_object = Some ?b"
    by (simp add: done_by_object_def)
  have s: "u_status (build_update e ?b) = Some (JObj [(''_id'', JStr ''done'')])"
    by (simp add: build_update_status lookup_def)
  have found: "find (\<lambda>x. oid x = k) (tasks (st\<lparr>calls := Suc (calls st)\<rparr>)) = Some t"
    using assms(3) by simp
  have run: "update_task e now stamp i done_by_object st
      = (Reply 200 (TaskDoc ?t),
         st\<lparr>calls := Suc (Suc (calls st)),
            tasks := update_first (\<lambda>x. oid x = k)
              (\<lambda>x. x\<lparr>status := Some ''done'',
                 completedAt := (if status t = Some ''done'' then None else completedAt x),
                 updatedAt := stamp\<rparr>) (tasks st)\<rparr>)"
    using assms(4,5)
    by (simp add: update_task_found[OF assms(1,2,3) p] s
        finish_update_found[OF assms(2) found] cast_update_by_object)
  have kept: "find (\<lambda>x. oid x = k) (update_first (\<lambda>x. oid x = k)
              (\<lambda>x. x\<lparr>status := Some ''done'',
                 completedAt := (if status t = Some ''done'' then None else completedAt x),
                 updatedAt := stamp\<rparr>) (tasks st)) = Some ?t"
    using assms(3) k by (simp add: find_update_first)
  show ?thesis
    using run kept by simp
qed









text \<open>Examples: a task is marked done, another is reopened, and a third request only
  renames a task that is done.\<close>

lemmas run_update =
  update_task_def build_update_def transition_def finish_update_def Task_findById_def
  Task_findByIdAndUpdate_def cast_update_def optionally_def orElse_def valid_title_def
  valid_status_def perform_def roundtrip_def example_env_def hex24_def is_hex_def
  toLowerCase_def two_tasks_def store_of_def a_task_def lookup_def allowed_def caught_def
  not_found_def id1_def id2_def Let_def

lemma ids_distinct: "id1 \<noteq> id2" "id2 \<noteq> id1"
  by (simp_all add: id1_def id2_def)

lemma two_tasks_hyps:
  "isValid (example_env 0) (JStr id1)" "castObjectId (example_env 0) (JStr id1) = Some id1"
  "find (\<lambda>x. oid x = id1) (tasks two_tasks) = Some (a_task id1 ''write report'' ''todo'' None)"
  "isValid (example_env 0) (JStr id2)" "castObjectId (example_env 0) (JStr id2) = Some id2"
  "find (\<lambda>x. oid x = id2) (tasks two_tasks) = Some (a_task id2 ''file taxes'' ''done'' (Some 3))"
  by (simp_all add: example_env_def hex24_ids lower_ids two_tasks_def store_of_def a_task_def)
     (simp add: id1_def id2_def)

lemma run_mark_done:
  "update_task (example_env 0) 50 60 id1 mark_done two_tasks
     = (Reply 200 (TaskDoc ((a_task id1 ''write report'' ''done'' (Some 50))\<lparr>updatedAt := 60\<rparr>)),
        two_tasks\<lparr>calls := 2,
          tasks := [(a_task id1 ''write report'' ''done'' (Some 50))\<lparr>updatedAt := 60\<rparr>,
                    a_task id2 ''file taxes'' ''done'' (Some 3)]\<rparr>)"
  by (simp add: run_update mark_done_def)

lemma run_reopen:
  "update_task (example_env 0) 50 60 id2 reopen two_tasks
     = (Reply 200 (TaskDoc ((a_task id2 ''file taxes'' ''todo'' None)\<lparr>updatedAt := 60\<rparr>)),
        two_tasks\<lparr>calls := 2,
          tasks := [a_task id1 ''write report'' ''todo'' None,
                    (a_task id2 ''file taxes'' ''todo'' None)\<lparr>updatedAt := 60\<rparr>]\<rparr>)"
  by (simp add: run_update reopen_def)

lemma run_rename:
  "update_task (example_env 0) 50 60 id2 rename two_tasks
     = (Reply 200 (TaskDoc ((a_task id2 ''file the taxes'' ''done'' (Some 3))\<lparr>updatedAt := 60\<rparr>)),
        two_tasks\<lparr>calls := 1,
          tasks := [a_task id1 ''write report'' ''todo'' None,
                    (a_task id2 ''file the taxes'' ''done'' (Some 3))\<lparr>updatedAt := 60\<rparr>]\<rparr>)"
  by (simp add: run_update rename_def)

lemma text_bodies:
  "getProp mark_done ''status'' = None \<or> (\<exists>s. getProp mark_done ''status'' = Some (JStr s))"
  "getProp reopen ''status'' = None \<or> (\<exists>s. getProp reopen ''status'' = Some (JStr s))"
  "getProp rename ''status'' = None \<or> (\<exists>s. getProp rename ''status'' = Some (JStr s))"
  by (simp_all add: mark_done_def reopen_def rename_def lookup_def)

lemma status_transition_examples:
  "(\<exists>t' st'. update_task (example_env 0) 50 60 id1 mark_done two_tasks
                 = (Reply 200 (TaskDoc t'), st')
             \<and> find (\<lambda>x. oid x = id1) (tasks st') = Some t'
             \<and> status t' = Some ''done'' \<and> completedAt t' = Some 50)
   \<and> (\<exists>t' st'. update_task (example_env 0) 50 60 id2 reopen two_tasks
                 = (Reply 200 (TaskDoc t'), st')
             \<and> find (\<lambda>x. oid x = id2) (tasks st') = Some t'
             \<and> status t' = Some ''todo'' \<and> completedAt t' = None)
   \<and> (\<exists>t' st'. update_task (example_env 0) 50 60 id2 rename two_tasks
                 = (Reply 200 (TaskDoc t'), st')
             \<and> find (\<lambda>x. oid x = id2) (tasks st') = Some t'
             \<and> status t' = Some ''done'' \<and> completedAt t' = Some 3)"
  using status_transition_of_text[OF two_tasks_hyps(1,2,3) run_mark_done text_bodies(1)]
    status_transition_of_text[OF two_tasks_hyps(4,5,6) run_reopen text_bodies(2)]
    status_transition_of_text[OF two_tasks_hyps(4,5,6) run_rename text_bodies(3)]
  by (simp add: run_mark_done run_reopen run_rename a_task_def ids_distinct)

text \<open>
  The task \<open>write report\<close>, to do and never completed, is persisted as \<open>done\<close> with no
  \<open>completedAt\<close>; the task \<open>file taxes\<close>, done and completed at 3, stays \<open>done\<close> and loses
  its \<open>completedAt\<close>.
\<close>

lemma two_tasks_up:
  "\<not> down two_tasks (calls two_tasks)" "\<not> down two_tasks (Suc (calls two_tasks))"
  by (simp_all add: two_tasks_def store_of_def)

theorem status_object_skips_completedAt_witness:
  "(\<exists>st'. update_task (example_env 0) 50 60 id1 done_by_object two_tasks
            = (Reply 200 (TaskDoc ((a_task id1 ''write report'' ''done'' None)\<lparr>updatedAt := 60\<rparr>)),
               st')
          \<and> find (\<lambda>x. oid x = id1) (tasks st')
            = Some ((a_task id1 ''write report'' ''done'' None)\<lparr>updatedAt := 60\<rparr>))
   \<and> (\<exists>st'. update_task (example_env 0) 50 60 id2 done_by_object two_tasks
            = (Reply 200 (TaskDoc ((a_task id2 ''file taxes'' ''done'' None)\<lparr>updatedAt := 60\<rparr>)),
               st')
          \<and> find (\<lambda>x. oid x = id2) (tasks st')
            = Some ((a_task id2 ''file taxes'' ''done'' None)\<lparr>updatedAt := 60\<rparr>))"
  using status_object_skips_completedAt[OF two_tasks_hyps(1,2,3) two_tasks_up, of 50 60]
    status_object_skips_completedAt[OF two_tasks_hyps(4,5,6) two_tasks_up, of 50 60]
  by (simp add: a_task_def)




section \<open>Listing tasks\<close>

lemma set_place: "set (place lt x ys) = insert x (set ys)"
  by (induction ys) auto

lemma set_sorted_by: "set (sorted_by lt xs) = set xs"
  by (induction xs) (simp_all add: sorted_by_def set_place)

lemma Task_find_found:
  assumes "Task_find e w f asc st = (Inr found, st')"
  shows "\<exists>m. (case w_title w of None \<Rightarrow> Some (\<lambda>_. True) | Some pat \<Rightarrow> regex e pat) = Some m
           \<and> set found = {t \<in> set (tasks st). matches w m t}
           \<and> st' = st\<lparr>calls := Suc (calls st)\<rparr>"
  using assms
  by (auto simp add: Task_find_def perform_def roundtrip_def set_sorted_by
      split: option.splits if_splits)

lemma list_tasks_found:
  assumes "list_tasks e q st = (Reply c (TaskDocs found), st')"
  shows "c = 200 \<and> (\<exists>m. (case w_title (build_where e q) of None \<Rightarrow> Some (\<lambda>_. True)
                               | Some pat \<Rightarrow> regex e pat) = Some m
           \<and> set found = {t \<in> set (tasks st). matches (build_where e q) m t})"
proof -
  from assms obtain s' where f: "Task_find e (build_where e q) (sortField q) (sortAsc q) st
      = (Inr found, s')" and c: "c = 200"
    by (auto simp add: list_tasks_def split: prod.splits sum.splits)
  from Task_find_found[OF f] c show ?thesis by blast
qed

lemma where_status:
  "q ''status'' = Some s \<Longrightarrow> s \<in> {''todo'', ''doing'', ''done''} \<Longrightarrow>
   w_status (build_where e q) = Some s"
  by (auto simp add: build_where_def)

lemma where_priority:
  "q ''priority'' = Some p \<Longrightarrow> p \<noteq> [] \<Longrightarrow> toNumber e (JStr p) = Some n \<Longrightarrow> n \<in> {1, 2, 3} \<Longrightarrow>
   w_priority (build_where e q) = Some n"
  by (auto simp add: build_where_def)

lemma where_tags:
  "q ''tag'' = Some g \<Longrightarrow> g \<noteq> [] \<Longrightarrow> trim e g \<noteq> [] \<Longrightarrow>
   w_tags (build_where e q) = Some (trim e g)"
  by (auto simp add: build_where_def)

lemma where_title:
  "q ''q'' = Some x \<Longrightarrow> x \<noteq> [] \<Longrightarrow> trim e x \<noteq> [] \<Longrightarrow>
   w_title (build_where e q) = Some (trim e x)"
  by (auto simp add: build_where_def)

lemma where_ignores_status:
  "(\<And>s. q ''status'' = Some s \<Longrightarrow> s \<notin> {''todo'', ''doing'', ''done''}) \<Longrightarrow>
   build_where e q = build_where e (q(''status'' := None))"
  by (auto simp add: build_where_def split: option.splits)

lemma where_ignores_priority:
  "(\<And>p. q ''priority'' = Some p \<Longrightarrow> toNumber e (JStr p) \<notin> {Some 1, Some 2, Some 3}) \<Longrightarrow>
   build_where e q = build_where e (q(''priority'' := None))"
  by (auto simp add: build_where_def split: option.splits)

lemma list_tasks_up:
  assumes "\<not> down st (calls st)"
    "(case w_title (build_where e q) of None \<Rightarrow> Some (\<lambda>_. True) | Some pat \<Rightarrow> regex e pat) = Some m"
  shows "list_tasks e q st =
     (Reply 200 (TaskDocs (sorted_by (comes_before (sortField q) (sortAsc q))
                             (filter (matches (build_where e q) m) (tasks st)))),
      st\<lparr>calls := Suc (calls st)\<rparr>)"
  using assms
  by (simp add: list_tasks_def Task_find_def perform_def roundtrip_def)

text \<open>
  Claim C7, as amended. Every task that \<open>GET /tasks\<close> returns is a task of the store
  that satisfies the conditions the handler builds from the query: a \<open>status\<close> among
  \<open>todo\<close>, \<open>doing\<close>, \<open>done\<close> is the status of the task; a \<open>priority\<close> whose number is 1, 2
  or 3 is the priority of the task; a \<open>tag\<close> that is not blank occurs, trimmed as
  \<open>String.prototype.trim\<close> trims it, among the tags of the task; a \<open>q\<close> that is not
  blank is, trimmed likewise, a pattern that the store's case-insensitive matcher accepts
  and finds in the title. A \<open>status\<close> or \<open>priority\<close> outside these values is
  ignored: the answer is that of the query without it. When the store answers and accepts
  the pattern, the answer is 200 with a list, be it empty.
\<close>

theorem list_tasks_filter:
  "(list_tasks e q st = (Reply c (TaskDocs found), st') \<and> t \<in> set found \<longrightarrow>
       c = 200 \<and> t \<in> set (tasks st)
     \<and> (\<forall>s. q ''status'' = Some s \<and> s \<in> {''todo'', ''doing'', ''done''} \<longrightarrow> status t = Some s)
     \<and> (\<forall>p n. q ''priority'' = Some p \<and> p \<noteq> [] \<and> toNumber e (JStr p) = Some n \<and> n \<in> {1, 2, 3}
              \<longrightarrow> priority t = n)
     \<and> (\<forall>g. q ''tag'' = Some g \<and> g \<noteq> [] \<and> trim e g \<noteq> [] \<longrightarrow> Some (trim e g) \<in> set (tags t))
     \<and> (\<forall>x. q ''q'' = Some x \<and> x \<noteq> [] \<and> trim e x \<noteq> [] \<longrightarrow> (\<exists>m. regex e (trim e x) = Some m \<and> m (title t))))
   \<and> ((\<forall>s. q ''status'' = Some s \<longrightarrow> s \<notin> {''todo'', ''doing'', ''done''}) \<longrightarrow>
        list_tasks e q st = list_tasks e (q(''status'' := None)) st)
   \<and> ((\<forall>p. q ''priority'' = Some p \<longrightarrow> toNumber e (JStr p) \<notin> {Some 1, Some 2, Some 3}) \<longrightarrow>
        list_tasks e q st = list_tasks e (q(''priority'' := None)) st)
   \<and> (\<not> down st (calls st) \<and> (\<forall>x. q ''q'' = Some x \<and> x \<noteq> [] \<and> trim e x \<noteq> [] \<longrightarrow> regex e (trim e x) \<noteq> None) \<longrightarrow>
        (\<exists>found'. list_tasks e q st = (Reply 200 (TaskDocs found'), st\<lparr>calls := Suc (calls st)\<rparr>)))"
proof (intro conjI impI)
  assume a: "list_tasks e q st = (Reply c (TaskDocs found), st') \<and> t \<in> set found"
  from list_tasks_found[of e q st c found st'] a obtain m where
    c: "c = 200"
    and m: "(case w_title (build_where e q) of None \<Rightarrow> Some (\<lambda>_. True)
             | Some pat \<Rightarrow> regex e pat) = Some m"
    and t: "t \<in> set (tasks st)" "matches (build_where e q) m t"
    by auto
  show "c = 200" by (rule c)
  show "t \<in> set (tasks st)" by (rule t)
  show "\<forall>s. q ''status'' = Some s \<and> s \<in> {''todo'', ''doing'', ''done''} \<longrightarrow> status t = Some s"
    using t(2) where_status[of q _ e] by (auto simp add: matches_def)
  show "\<forall>p n. q ''priority'' = Some p \<and> p \<noteq> [] \<and> toNumber e (JStr p) = Some n \<and> n \<in> {1, 2, 3}
              \<longrightarrow> priority t = n"
    using t(2) where_priority[of q _ e] by (auto simp add: matches_def)
  show "\<forall>g. q ''tag'' = Some g \<and> g \<noteq> [] \<and> trim e g \<noteq> [] \<longrightarrow> Some (trim e g) \<in> set (tags t)"
    using t(2) where_tags[of q _ e] by (auto simp add: matches_def)
  show "\<forall>x. q ''q'' = Some x \<and> x \<noteq> [] \<and> trim e x \<noteq> [] \<longrightarrow> (\<exists>m. regex e (trim e x) = Some m \<and> m (title t))"
    using t(2) m where_title[of q _ e] by (auto simp add: matches_def)
next
  assume "\<forall>s. q ''status'' = Some s \<longrightarrow> s \<notin> {''todo'', ''doing'', ''done''}"
  then have "build_where e q = build_where e (q(''status'' := None))"
    using where_ignores_status[of q e] by blast
  then show "list_tasks e q st = list_tasks e (q(''status'' := None)) st"
    by (simp add: list_tasks_def sortField_def sortAsc_def)
next
  assume "\<forall>p. q ''priority'' = Some p \<longrightarrow> toNumber e (JStr p) \<notin> {Some 1, Some 2, Some 3}"
  then have "build_where e q = build_where e (q(''priority'' := None))"
    using where_ignores_priority[of q e] by blast
  then show "list_tasks e q st = list_tasks e (q(''priority'' := None)) st"
    by (simp add: list_tasks_def sortField_def sortAsc_def)
next
  assume a: "\<not> down st (calls st)
      \<and> (\<forall>x. q ''q'' = Some x \<and> x \<noteq> [] \<and> trim e x \<noteq> [] \<longrightarrow> regex e (trim e x) \<noteq> None)"
  have "\<exists>m. (case w_title (build_where e q) of None \<Rightarrow> Some (\<lambda>_. True)
             | Some pat \<Rightarrow> regex e pat) = Some m"
    using a by (auto simp add: build_where_def split: option.splits)
  then obtain m where m: "(case w_title (build_where e q) of None \<Rightarrow> Some (\<lambda>_. True)
             | Some pat \<Rightarrow> regex e pat) = Some m" ..
  from list_tasks_up[OF _ m] a
  show "\<exists>found'. list_tasks e q st = (Reply 200 (TaskDocs found'), st\<lparr>calls := Suc (calls st)\<rparr>)"
    by blast
qed

lemmas run_list =
  list_tasks_def Task_find_def build_where_def sortField_def sortAsc_def matches_def
  perform_def roundtrip_def sorted_by_def ascii_trim_def is_space_def example_env_def
  example_regex_def plain_def toLowerCase_def store_of_def a_task_def abc_task_def
  decimal_value_def is_digit_def char_of_eq_iff

text \<open>
  The claim as stated fails. The query \<open>tag= urgent\<close> (with a leading space) and
  \<open>q=a.c\<close> returns a task titled \<open>abc\<close> and tagged \<open>urgent\<close>: the text \<open>a.c\<close> does not
  occur in the title, since \<open>q\<close> is a pattern and its dot matches any character, and the
  tag as it was sent is not among the tags.
\<close>

theorem regex_not_substring_counterexample:
  "list_tasks (example_env 0) dotted_query (store_of [abc_task] [])
     = (Reply 200 (TaskDocs [abc_task]), (store_of [abc_task] [])\<lparr>calls := 1\<rparr>)
   \<and> \<not> substring_ignoring_case ''a.c'' (title abc_task)
   \<and> Some '' urgent'' \<notin> set (tags abc_task)"
  by (simp add: run_list dotted_query_def substring_ignoring_case_def)

lemma run_plain_query:
  "list_tasks (example_env 0) plain_query (store_of [abc_task, a_task id2 ''xyz'' ''todo'' None] [])
     = (Reply 200 (TaskDocs [abc_task]),
        (store_of [abc_task, a_task id2 ''xyz'' ''todo'' None] [])\<lparr>calls := 1\<rparr>)"
  by (simp add: run_list plain_query_def)

lemma run_sloppy_query:
  "list_tasks (example_env 0) sloppy_query (store_of [] [])
     = (Reply 200 (TaskDocs []), (store_of [] [])\<lparr>calls := 1\<rparr>)"
  by (simp add: run_list sloppy_query_def)

theorem list_tasks_filter_witness:
  "list_tasks (example_env 0) plain_query (store_of [abc_task, a_task id2 ''xyz'' ''todo'' None] [])
     = (Reply 200 (TaskDocs [abc_task]),
        (store_of [abc_task, a_task id2 ''xyz'' ''todo'' None] [])\<lparr>calls := 1\<rparr>)
   \<and> status abc_task = Some ''todo'' \<and> priority abc_task = 2
   \<and> Some ''urgent'' \<in> set (tags abc_task)
   \<and> (\<exists>m. regex (example_env 0) ''AB'' = Some m \<and> m (title abc_task))
   \<and> list_tasks (example_env 0) sloppy_query (store_of [] [])
     = list_tasks (example_env 0) (sloppy_query(''status'' := None)) (store_of [] [])
   \<and> list_tasks (example_env 0) sloppy_query (store_of [] [])
     = (Reply 200 (TaskDocs []), (store_of [] [])\<lparr>calls := 1\<rparr>)"
proof -
  have s: "\<forall>s. sloppy_query ''status'' = Some s \<longrightarrow> s \<notin> {''todo'', ''doing'', ''done''}"
    by (simp add: sloppy_query_def)
  have p: "plain_query ''status'' = Some ''todo''" "plain_query ''priority'' = Some ''2''"
    "plain_query ''tag'' = Some ''urgent''" "plain_query ''q'' = Some ''AB''"
    "trim (example_env 0) ''urgent'' = ''urgent''" "trim (example_env 0) ''AB'' = ''AB''"
    "toNumber (example_env 0) (JStr ''2'') = Some 2"
    by (simp_all add: plain_query_def ascii_trim_def is_space_def example_env_def decimal_value_def
        is_digit_def)
  have m: "abc_task \<in> set [abc_task]" by simp
  note T = list_tasks_filter[of "example_env 0" plain_query
      "store_of [abc_task, a_task id2 ''xyz'' ''todo'' None] []" 200 "[abc_task]"
      "(store_of [abc_task, a_task id2 ''xyz'' ''todo'' None] [])\<lparr>calls := 1\<rparr>" abc_task,
      THEN conjunct1, THEN mp, OF conjI[OF run_plain_query m]]
  note T2 = T[THEN conjunct2, THEN conjunct2]
  have a1: "status abc_task = Some ''todo''"
    using T2[THEN conjunct1, rule_format, of "''todo''"] p(1) by simp
  have a2: "priority abc_task = 2"
    using T2[THEN conjunct2, THEN conjunct1, rule_format, of "''2''" 2] p(2,7) by simp
  have a3: "Some ''urgent'' \<in> set (tags abc_task)"
    using T2[THEN conjunct2, THEN conjunct2, THEN conjunct1, rule_format, of "''urgent''"] p(3,5)
    by simp
  have a4: "\<exists>m. regex (example_env 0) ''AB'' = Some m \<and> m (title abc_task)"
    using T2[THEN conjunct2, THEN conjunct2, THEN conjunct2, rule_format, of "''AB''"] p(4,6)
    by simp
  note a = a1 a2 a3 a4
  from list_tasks_filter[of "example_env 0" sloppy_query "store_of [] []"] s
  have b: "list_tasks (example_env 0) sloppy_query (store_of [] [])
     = list_tasks (example_env 0) (sloppy_query(''status'' := None)) (store_of [] [])"
    by blast
  show ?thesis
    using a b run_plain_query run_sloppy_query by simp
qed

end
